theory Spec2Isabelle
  imports Complex_Main
begin

section \<open>Python values read by the IPO monitor\<close>

text \<open>
  The monitor (\<^verbatim>\<open>main.py\<close>) fetches the listing records of the day, keeps those whose
  estimated offer exceeds a threshold and mails a report. It handles the fields of a
  record, decoded from JSON, dynamically: a field value is modelled as null, a string, an
  integer or a float. Strings are lists of characters with code points 0 to 255.
  Exceptions are values: every function that can raise returns \<open>exn + 'a\<close>, with
  \<open>Inl\<close> the exception.

  The embedding covers \<^verbatim>\<open>parse_price_range\<close>, \<^verbatim>\<open>compute_offer\<close> and, of
  \<^verbatim>\<open>run\<close>, the loop over the records and the assembly of the subject and the body.
  The reference date and the fetched list are arguments. Reading the environment, the
  clock, the HTTP request, the SMTP session and the lines printed to the console are
  outside it.
\<close>

datatype exn = ValueError | IndexError | OverflowError | AttributeError | TypeError

text \<open>
  A float is an IEEE 754 double: a finite value given by the rational it denotes
  (\<open>Fin 0\<close> is \<open>0.0\<close>), the negative zero, the two infinities and NaN.
\<close>

datatype pyfloat = Fin rat | NegZero | PInf | NInf | NaN

datatype pyval = PNone | PStr string | PInt int | PFloat pyfloat

subsection \<open>Rounding to a double\<close>

function bitlen :: "int \<Rightarrow> int" where
  "bitlen n = (if n \<le> 0 then 0 else 1 + bitlen (n div 2))"
  by pat_completeness auto
termination
  by (relation "measure nat") auto

declare bitlen.simps [simp del]

definition pow2 :: "int \<Rightarrow> rat" where
  "pow2 k = (if 0 \<le> k then 2 ^ nat k else 1 / 2 ^ nat (- k))"

definition pow10 :: "int \<Rightarrow> rat" where
  "pow10 k = (if 0 \<le> k then 10 ^ nat k else 1 / 10 ^ nat (- k))"

text \<open>\<open>ilog2 q\<close> is the binary exponent of a positive rational: \<open>2 ^ e \<le> q < 2 ^ (e + 1)\<close>.\<close>

definition ilog2 :: "rat \<Rightarrow> int" where
  "ilog2 q = (if 1 \<le> q then bitlen \<lfloor>q\<rfloor> - 1 else - bitlen (\<lceil>1 / q\<rceil> - 1))"

definition round_half_even :: "rat \<Rightarrow> int" where
  "round_half_even x =
     (let f = \<lfloor>x\<rfloor>; d = x - of_int f
      in if d < 1 / 2 then f
         else if 1 / 2 < d then f + 1
         else if even f then f else f + 1)"

text \<open>
  \<open>round_mag q\<close> rounds a magnitude \<open>q \<ge> 0\<close> to the nearest double (53 significant bits,
  ties to even, subnormals below \<open>2 ^ (- 1022)\<close>); \<open>None\<close> is overflow.
\<close>

definition round_mag :: "rat \<Rightarrow> rat option" where
  "round_mag q =
     (if q = 0 then Some 0
      else let e = max (ilog2 q) (- 1022);
               u = pow2 (e - 52);
               r = of_int (round_half_even (q / u)) * u
           in if 2 ^ 1024 \<le> r then None else Some r)"

definition mk_float :: "bool \<Rightarrow> rat \<Rightarrow> pyfloat" where
  "mk_float neg q =
     (case round_mag q of
        None \<Rightarrow> (if neg then NInf else PInf)
      | Some r \<Rightarrow> if r = 0 then (if neg then NegZero else Fin 0)
                  else Fin (if neg then - r else r))"

subsection \<open>Float arithmetic, comparison and conversion\<close>

fun fsign :: "pyfloat \<Rightarrow> bool" where
  "fsign (Fin q) = (q < 0)"
| "fsign NegZero = True"
| "fsign NInf = True"
| "fsign PInf = False"
| "fsign NaN = False"

fun fmag :: "pyfloat \<Rightarrow> rat" where
  "fmag (Fin q) = \<bar>q\<bar>"
| "fmag _ = 0"

definition is_inf :: "pyfloat \<Rightarrow> bool" where
  "is_inf x = (x = PInf \<or> x = NInf)"

definition is_zero :: "pyfloat \<Rightarrow> bool" where
  "is_zero x = (x = Fin 0 \<or> x = NegZero)"

text \<open>The product of two doubles, as \<^verbatim>\<open>*\<close> computes it.\<close>

definition fmul :: "pyfloat \<Rightarrow> pyfloat \<Rightarrow> pyfloat" where
  "fmul x y =
     (if x = NaN \<or> y = NaN then NaN
      else if is_inf x \<or> is_inf y then
        (if is_zero x \<or> is_zero y then NaN
         else if fsign x \<noteq> fsign y then NInf else PInf)
      else mk_float (fsign x \<noteq> fsign y) (fmag x * fmag y))"

text \<open>\<^verbatim>\<open>x > n\<close> for a float \<open>x\<close> and an integer \<open>n\<close>: exact, false for NaN.\<close>

fun fgt_int :: "pyfloat \<Rightarrow> int \<Rightarrow> bool" where
  "fgt_int (Fin q) n = (of_int n < q)"
| "fgt_int NegZero n = (n < 0)"
| "fgt_int PInf n = True"
| "fgt_int NInf n = False"
| "fgt_int NaN n = False"

text \<open>\<^verbatim>\<open>x <= y\<close> and \<^verbatim>\<open>x < y\<close> on floats: false as soon as one side is NaN.\<close>

fun fle :: "pyfloat \<Rightarrow> pyfloat \<Rightarrow> bool" where
  "fle NaN _ = False"
| "fle _ NaN = False"
| "fle NInf _ = True"
| "fle _ PInf = True"
| "fle PInf _ = False"
| "fle _ NInf = False"
| "fle x y = ((if x = NegZero then 0 else fmag x * (if fsign x then - 1 else 1))
             \<le> (if y = NegZero then 0 else fmag y * (if fsign y then - 1 else 1)))"

definition flt :: "pyfloat \<Rightarrow> pyfloat \<Rightarrow> bool" where
  "flt x y = (fle x y \<and> \<not> fle y x)"

text \<open>\<^verbatim>\<open>int(x)\<close> truncates towards zero and raises on an infinity or NaN.\<close>

fun int_of_float :: "pyfloat \<Rightarrow> exn + int" where
  "int_of_float (Fin q) = Inr (if 0 \<le> q then \<lfloor>q\<rfloor> else \<lceil>q\<rceil>)"
| "int_of_float NegZero = Inr 0"
| "int_of_float PInf = Inl OverflowError"
| "int_of_float NInf = Inl OverflowError"
| "int_of_float NaN = Inl ValueError"

subsection \<open>Strings\<close>

definition code :: "char \<Rightarrow> nat" where
  "code c = of_char c"

text \<open>The characters \<^verbatim>\<open>str.strip()\<close> removes: those for which \<^verbatim>\<open>str.isspace()\<close> holds.\<close>

definition is_space :: "char \<Rightarrow> bool" where
  "is_space c =
     (let n = code c in (9 \<le> n \<and> n \<le> 13) \<or> (28 \<le> n \<and> n \<le> 32) \<or> n = 133 \<or> n = 160)"

text \<open>
  The characters \<^verbatim>\<open>float()\<close> skips around a literal: the ASCII whitespace, and the
  non-ASCII spaces it first turns into blanks. The separators 28 to 31 are not among them.
\<close>

definition is_float_space :: "char \<Rightarrow> bool" where
  "is_float_space c =
     (let n = code c in (9 \<le> n \<and> n \<le> 13) \<or> n = 32 \<or> n = 133 \<or> n = 160)"

definition strip_with :: "(char \<Rightarrow> bool) \<Rightarrow> string \<Rightarrow> string" where
  "strip_with P s = rev (dropWhile P (rev (dropWhile P s)))"

definition py_strip :: "string \<Rightarrow> string" where
  "py_strip s = strip_with is_space s"

text \<open>\<^verbatim>\<open>s.replace("$", "")\<close>.\<close>

definition remove_dollar :: "string \<Rightarrow> string" where
  "remove_dollar s = filter (\<lambda>c. c \<noteq> CHR ''$'') s"

text \<open>\<^verbatim>\<open>s.split(sep)\<close> for a one-character separator: empty pieces are kept.\<close>

fun py_split :: "char \<Rightarrow> string \<Rightarrow> string list" where
  "py_split sep [] = [[]]"
| "py_split sep (c # cs) =
     (if c = sep then [] # py_split sep cs
      else (case py_split sep cs of
              [] \<Rightarrow> [[c]]
            | p # ps \<Rightarrow> (c # p) # ps))"

definition lower_char :: "char \<Rightarrow> char" where
  "lower_char c =
     (let n = code c
      in if (65 \<le> n \<and> n \<le> 90) \<or> (192 \<le> n \<and> n \<le> 222 \<and> n \<noteq> 215)
         then char_of (n + 32) else c)"

definition py_lower :: "string \<Rightarrow> string" where
  "py_lower s = map lower_char s"

text \<open>\<^verbatim>\<open>p in s\<close> on strings: \<open>p\<close> occurs in \<open>s\<close> as a contiguous substring.\<close>

fun substr :: "string \<Rightarrow> string \<Rightarrow> bool" where
  "substr p [] = (p = [])"
| "substr p (c # cs) = (take (length p) (c # cs) = p \<or> substr p cs)"

text \<open>\<^verbatim>\<open>sep.join(xs)\<close>.\<close>

fun py_join :: "string \<Rightarrow> string list \<Rightarrow> string" where
  "py_join sep [] = []"
| "py_join sep [x] = x"
| "py_join sep (x # y # ys) = x @ sep @ py_join sep (y # ys)"

subsection \<open>Decimal text of integers\<close>

definition digit_char :: "int \<Rightarrow> char" where
  "digit_char d = ''0123456789'' ! nat d"

function dec_digits :: "int \<Rightarrow> string" where
  "dec_digits n = (if n < 10 then [digit_char n] else dec_digits (n div 10) @ [digit_char (n mod 10)])"
  by pat_completeness auto
termination
  by (relation "measure nat") auto

declare dec_digits.simps [simp del]

text \<open>\<^verbatim>\<open>str(n)\<close> for an integer.\<close>

definition str_int :: "int \<Rightarrow> string" where
  "str_int n = (if n < 0 then ''-'' @ dec_digits (- n) else dec_digits n)"

text \<open>The thousands separator of the format specifier \<^verbatim>\<open>,\<close>: a comma every three digits.\<close>

function group3 :: "string \<Rightarrow> string" where
  "group3 ds =
     (if length ds \<le> 3 then ds
      else group3 (take (length ds - 3) ds) @ '','' @ drop (length ds - 3) ds)"
  by pat_completeness auto
termination
  by (relation "measure length") auto

declare group3.simps [simp del]

text \<open>\<^verbatim>\<open>f"{n:,}"\<close> for an integer.\<close>

definition fmt_int_commas :: "int \<Rightarrow> string" where
  "fmt_int_commas n = (if n < 0 then ''-'' @ group3 (dec_digits (- n)) else group3 (dec_digits n))"

text \<open>
  \<^verbatim>\<open>f"{x:,.0f}"\<close> for a float: the exact value rounded to an integer, ties to even,
  the sign kept on a negative value that rounds to zero.
\<close>

fun fmt_float_commas :: "pyfloat \<Rightarrow> string" where
  "fmt_float_commas (Fin q) =
     (if q < 0 then ''-'' else []) @ group3 (dec_digits (round_half_even \<bar>q\<bar>))"
| "fmt_float_commas NegZero = ''-0''"
| "fmt_float_commas PInf = ''inf''"
| "fmt_float_commas NInf = ''-inf''"
| "fmt_float_commas NaN = ''nan''"

subsection \<open>Reading a float from text\<close>

definition is_digit :: "char \<Rightarrow> bool" where
  "is_digit c = (c \<in> set ''0123456789'')"

definition digits_val :: "string \<Rightarrow> int" where
  "digits_val ds = foldl (\<lambda>a c. 10 * a + (int (code c) - 48)) 0 ds"

fun split_sign :: "string \<Rightarrow> bool \<times> string" where
  "split_sign [] = (False, [])"
| "split_sign (c # cs) =
     (if c = CHR ''-'' then (True, cs)
      else if c = CHR ''+'' then (False, cs)
      else (False, c # cs))"

definition ascii_lower :: "char \<Rightarrow> char" where
  "ascii_lower c = (let n = code c in if 65 \<le> n \<and> n \<le> 90 then char_of (n + 32) else c)"

text \<open>The optional exponent part: \<^verbatim>\<open>e\<close> or \<^verbatim>\<open>E\<close>, an optional sign, at least one digit.\<close>

definition parse_exponent :: "string \<Rightarrow> int option" where
  "parse_exponent r =
     (case r of
        [] \<Rightarrow> Some 0
      | c # cs \<Rightarrow>
          if c = CHR ''e'' \<or> c = CHR ''E'' then
            (case split_sign cs of
               (neg, ds) \<Rightarrow>
                 if ds \<noteq> [] \<and> list_all is_digit ds
                 then Some (if neg then - digits_val ds else digits_val ds)
                 else None)
          else None)"

text \<open>
  A decimal literal: digits with an optional fraction, or a fraction alone, then the
  optional exponent. Its value is rounded once, to the nearest double.
\<close>

definition parse_decimal :: "bool \<Rightarrow> string \<Rightarrow> pyfloat option" where
  "parse_decimal neg r =
     (let ip = takeWhile is_digit r;
          r1 = dropWhile is_digit r;
          fp = (case r1 of [] \<Rightarrow> [] | c # cs \<Rightarrow> if c = CHR ''.'' then takeWhile is_digit cs else []);
          r2 = (case r1 of [] \<Rightarrow> [] | c # cs \<Rightarrow> if c = CHR ''.'' then dropWhile is_digit cs else r1)
      in if ip = [] \<and> fp = [] then None
         else (case parse_exponent r2 of
                 None \<Rightarrow> None
               | Some ex \<Rightarrow>
                   Some (mk_float neg (of_int (digits_val (ip @ fp)) * pow10 (ex - int (length fp))))))"

definition parse_float :: "string \<Rightarrow> pyfloat option" where
  "parse_float s =
     (case split_sign s of
        (neg, r) \<Rightarrow>
          if map ascii_lower r = ''inf'' \<or> map ascii_lower r = ''infinity''
          then Some (if neg then NInf else PInf)
          else if map ascii_lower r = ''nan'' then Some NaN
          else parse_decimal neg r)"

text \<open>
  An underscore in a numeric literal must stand between two digits. \<open>prev\<close> is the
  character before the one being read.
\<close>

fun underscores_ok :: "char option \<Rightarrow> string \<Rightarrow> bool" where
  "underscores_ok prev [] = (prev \<noteq> Some CHR ''_'')"
| "underscores_ok prev (c # cs) =
     ((if c = CHR ''_'' then (case prev of None \<Rightarrow> False | Some p \<Rightarrow> is_digit p)
       else if prev = Some CHR ''_'' then is_digit c else True)
      \<and> underscores_ok (Some c) cs)"

text \<open>
  \<^verbatim>\<open>float(s)\<close> for a string: surrounding whitespace is skipped, underscores are
  checked and dropped, and the rest must be one literal; anything else is a ValueError.
\<close>

definition float_of_str :: "string \<Rightarrow> exn + pyfloat" where
  "float_of_str s =
     (let v = strip_with is_float_space s
      in if v = [] \<or> \<not> underscores_ok None v then Inl ValueError
         else (case parse_float (filter (\<lambda>c. c \<noteq> CHR ''_'') v) of
                 None \<Rightarrow> Inl ValueError
               | Some x \<Rightarrow> Inr x))"

text \<open>
  \<^verbatim>\<open>float(v)\<close> for a field value. An integer is rounded to the nearest double and
  raises OverflowError when it is too large; null raises TypeError.
\<close>

fun py_float :: "pyval \<Rightarrow> exn + pyfloat" where
  "py_float PNone = Inl TypeError"
| "py_float (PStr s) = float_of_str s"
| "py_float (PInt n) =
     (case round_mag (of_int \<bar>n\<bar>) of
        None \<Rightarrow> Inl OverflowError
      | Some r \<Rightarrow> Inr (Fin (if n < 0 then - r else r)))"
| "py_float (PFloat x) = Inr x"

subsection \<open>Text of a float\<close>

text \<open>
  \<^verbatim>\<open>str(x)\<close> for a float is the shortest decimal text that reads back as \<open>x\<close>, the
  nearest one among the shortest. \<open>dec_exponent q\<close> is the decimal exponent of a positive
  rational: \<open>10 ^ (k - 1) \<le> q < 10 ^ k\<close>.
\<close>

definition dec_exponent :: "rat \<Rightarrow> int" where
  "dec_exponent q =
     (if 1 \<le> q then int (length (dec_digits \<lfloor>q\<rfloor>))
      else 1 - int (length (dec_digits (\<lceil>1 / q\<rceil> - 1))))"

text \<open>
  The digits \<open>c\<close> such that \<open>c * 10 ^ e\<close> reads back as \<open>q\<close>, if one of the two
  multiples of \<open>10 ^ e\<close> around \<open>q\<close> does.
\<close>

definition repr_candidate :: "rat \<Rightarrow> int \<Rightarrow> int option" where
  "repr_candidate q e =
     (let scaled = q / pow10 e;
          lo = \<lfloor>scaled\<rfloor>;
          hi = lo + 1;
          ok_lo = (mk_float False (of_int lo * pow10 e) = Fin q);
          ok_hi = (mk_float False (of_int hi * pow10 e) = Fin q)
      in if ok_lo \<and> ok_hi then Some (round_half_even scaled)
         else if ok_lo then Some lo
         else if ok_hi then Some hi
         else None)"

text \<open>The search for the least number \<open>n\<close> of digits, up to 17, which always suffice.\<close>

fun shortest_digits :: "rat \<Rightarrow> int \<Rightarrow> nat \<Rightarrow> nat \<Rightarrow> int \<times> int" where
  "shortest_digits q k n 0 = (round_half_even (q / pow10 (k - int n)), k - int n)"
| "shortest_digits q k n (Suc fuel) =
     (case repr_candidate q (k - int n) of
        Some c \<Rightarrow> (c, k - int n)
      | None \<Rightarrow> shortest_digits q k (Suc n) fuel)"

definition rstrip_zeros :: "string \<Rightarrow> string" where
  "rstrip_zeros ds = rev (dropWhile (\<lambda>c. c = CHR ''0'') (rev ds))"

definition pad2 :: "string \<Rightarrow> string" where
  "pad2 ds = (if length ds < 2 then ''0'' @ ds else ds)"

definition repr_finite :: "rat \<Rightarrow> string" where
  "repr_finite q =
     (case shortest_digits q (dec_exponent q) 1 16 of
        (c, e) \<Rightarrow>
          let decpt = int (length (dec_digits c)) + e;
              ds = rstrip_zeros (dec_digits c);
              n = int (length ds)
          in if - 4 < decpt \<and> decpt \<le> 16 then
               (if decpt \<le> 0 then ''0.'' @ replicate (nat (- decpt)) CHR ''0'' @ ds
                else if n \<le> decpt then ds @ replicate (nat (decpt - n)) CHR ''0'' @ ''.0''
                else take (nat decpt) ds @ ''.'' @ drop (nat decpt) ds)
             else take 1 ds @ (if 1 < n then ''.'' @ drop 1 ds else [])
                  @ ''e'' @ (if decpt - 1 < 0 then ''-'' else ''+'')
                  @ pad2 (dec_digits \<bar>decpt - 1\<bar>))"

fun float_repr :: "pyfloat \<Rightarrow> string" where
  "float_repr (Fin q) =
     (if q = 0 then ''0.0'' else (if q < 0 then ''-'' else []) @ repr_finite \<bar>q\<bar>)"
| "float_repr NegZero = ''-0.0''"
| "float_repr PInf = ''inf''"
| "float_repr NInf = ''-inf''"
| "float_repr NaN = ''nan''"

subsection \<open>Field values as text and as conditions\<close>

text \<open>\<^verbatim>\<open>str(v)\<close>, also what an f-string puts for \<^verbatim>\<open>{v}\<close>.\<close>

fun py_str :: "pyval \<Rightarrow> string" where
  "py_str PNone = ''None''"
| "py_str (PStr s) = s"
| "py_str (PInt n) = str_int n"
| "py_str (PFloat x) = float_repr x"

text \<open>The truth value of a field: null, the empty string and zero are false.\<close>

fun truthy :: "pyval \<Rightarrow> bool" where
  "truthy PNone = False"
| "truthy (PStr s) = (s \<noteq> [])"
| "truthy (PInt n) = (n \<noteq> 0)"
| "truthy (PFloat x) = (\<not> is_zero x)"

section \<open>The monitor\<close>

definition THRESHOLD_USD :: int where
  "THRESHOLD_USD = 200000000"

subsection \<open>\<^verbatim>\<open>parse_price_range\<close>\<close>

text \<open>
  The non-empty trimmed pieces between hyphens:
  \<^verbatim>\<open>[p.strip() for p in s.split("-") if p.strip()]\<close>.
\<close>

definition price_parts :: "string \<Rightarrow> string list" where
  "price_parts s = map py_strip (filter (\<lambda>p. py_strip p \<noteq> []) (py_split CHR ''-'' s))"

text \<open>
  The body of the \<^verbatim>\<open>try\<close> block. \<^verbatim>\<open>parts[-1]\<close> on an empty list raises
  IndexError.
\<close>

definition price_try :: "string \<Rightarrow> exn + pyfloat \<times> pyfloat" where
  "price_try s =
     (if CHR ''-'' \<in> set s then
        (let parts = price_parts s
         in if 2 \<le> length parts then
              (case float_of_str (parts ! 0) of
                 Inl e \<Rightarrow> Inl e
               | Inr low \<Rightarrow>
                   (case float_of_str (parts ! 1) of
                      Inl e \<Rightarrow> Inl e
                    | Inr high \<Rightarrow> Inr (low, high)))
            else if parts = [] then Inl IndexError
            else (case float_of_str (last parts) of
                    Inl e \<Rightarrow> Inl e
                  | Inr v \<Rightarrow> Inr (v, v)))
      else (case float_of_str s of
              Inl e \<Rightarrow> Inl e
            | Inr v \<Rightarrow> Inr (v, v)))"

text \<open>The cleaned text of a price field: \<^verbatim>\<open>str(price_raw).strip().replace("$", "")\<close>.\<close>

definition clean_price :: "pyval \<Rightarrow> string" where
  "clean_price price_raw = remove_dollar (py_strip (py_str price_raw))"

text \<open>Only a ValueError is caught; any other exception leaves the function.\<close>

definition parse_price_range :: "pyval \<Rightarrow> exn + pyfloat \<times> pyfloat" where
  "parse_price_range price_raw =
     (if price_raw = PNone then Inr (Fin 0, Fin 0)
      else let s = clean_price price_raw
           in if s = [] \<or> s = ''-'' then Inr (Fin 0, Fin 0)
              else if price_try s = Inl ValueError then Inr (Fin 0, Fin 0)
              else price_try s)"

subsection \<open>\<^verbatim>\<open>compute_offer\<close>\<close>

text \<open>The share count as a float: \<open>0.0\<close> when absent, or on a TypeError or ValueError.\<close>

definition shares_float :: "pyval \<Rightarrow> exn + pyfloat" where
  "shares_float shares =
     (if shares = PNone then Inr (Fin 0)
      else (case py_float shares of
              Inl e \<Rightarrow> if e = TypeError \<or> e = ValueError then Inr (Fin 0) else Inl e
            | Inr x \<Rightarrow> Inr x))"

definition compute_offer :: "pyval \<Rightarrow> pyval \<Rightarrow> exn + pyfloat \<times> pyfloat" where
  "compute_offer price_raw shares =
     (case shares_float shares of
        Inl e \<Rightarrow> Inl e
      | Inr shares_f \<Rightarrow>
          (case parse_price_range price_raw of
             Inl e \<Rightarrow> Inl e
           | Inr (low, high) \<Rightarrow> Inr (fmul low shares_f, fmul high shares_f)))"

subsection \<open>The loop of \<^verbatim>\<open>run\<close> over the listing records\<close>

text \<open>A listing record is a dictionary from field names to values.\<close>

type_synonym ipo = "string \<Rightarrow> pyval option"

text \<open>\<^verbatim>\<open>d.get(k, dflt)\<close>; \<^verbatim>\<open>d.get(k)\<close> is \<open>dict_get d k PNone\<close>.\<close>

definition dict_get :: "ipo \<Rightarrow> string \<Rightarrow> pyval \<Rightarrow> pyval" where
  "dict_get d k dflt = (case d k of None \<Rightarrow> dflt | Some v \<Rightarrow> v)"

text \<open>
  \<^verbatim>\<open>(ipo.get("status", "N/A") or "").lower()\<close>: a status that is neither a string
  nor false has no method \<^verbatim>\<open>lower\<close>.
\<close>

definition status_of :: "ipo \<Rightarrow> exn + string" where
  "status_of ipo =
     (let v = dict_get ipo ''status'' (PStr ''N/A'')
      in case (if truthy v then v else PStr []) of
           PStr s \<Rightarrow> Inr (py_lower s)
         | _ \<Rightarrow> Inl AttributeError)"

text \<open>The fields the loop reads from a record, with the defaults it gives.\<close>

definition get_date :: "ipo \<Rightarrow> pyval" where
  "get_date ipo = dict_get ipo ''date'' (PStr ''N/A'')"

definition get_symbol :: "ipo \<Rightarrow> pyval" where
  "get_symbol ipo = dict_get ipo ''symbol'' PNone"

definition get_name :: "ipo \<Rightarrow> pyval" where
  "get_name ipo = dict_get ipo ''name'' (PStr ''N/A'')"

definition get_exchange :: "ipo \<Rightarrow> pyval" where
  "get_exchange ipo = dict_get ipo ''exchange'' (PStr ''N/A'')"

definition get_price :: "ipo \<Rightarrow> pyval" where
  "get_price ipo = dict_get ipo ''price'' PNone"

definition get_shares :: "ipo \<Rightarrow> pyval" where
  "get_shares ipo = dict_get ipo ''numberOfShares'' PNone"

definition get_total :: "ipo \<Rightarrow> pyval" where
  "get_total ipo = dict_get ipo ''totalSharesValue'' PNone"

text \<open>
  The outcome of the filter on one record: rejected (the loop goes on to the next
  record), or admitted with its case-folded status and its \<^verbatim>\<open>offer\<close>.
  \<open>eligibility\<close> is the loop body from the reading of the fields to the threshold test:
  the status is case-folded first, then come the tests with their \<^verbatim>\<open>continue\<close>, in
  the order of the source.
\<close>

datatype verdict = Rejected | Admitted string pyfloat

definition eligibility :: "string \<Rightarrow> ipo \<Rightarrow> exn + verdict" where
  "eligibility today ipo =
     (let ipo_date = get_date ipo;
          symbol = get_symbol ipo;
          exchange = get_exchange ipo;
          price_raw = get_price ipo;
          shares = get_shares ipo
      in case status_of ipo of
           Inl e \<Rightarrow> Inl e
         | Inr status \<Rightarrow>
             if ipo_date \<noteq> PStr today then Inr Rejected
             else if status \<notin> {''expected'', ''priced''} then Inr Rejected
             else if \<not> truthy exchange
                     \<or> (\<not> substr ''NASDAQ'' (py_str exchange) \<and> \<not> substr ''NYSE'' (py_str exchange))
                  then Inr Rejected
             else if \<not> truthy symbol \<or> price_raw \<in> {PNone, PStr [], PStr ''-''}
                     \<or> shares \<in> {PNone, PStr []}
                  then Inr Rejected
             else (case compute_offer price_raw shares of
                     Inl e \<Rightarrow> Inl e
                   | Inr (offer_low, offer) \<Rightarrow>
                       if fgt_int offer THRESHOLD_USD then Inr (Admitted status offer)
                       else Inr Rejected))"

definition nl :: string where
  "nl = [CHR 0x0A]"

text \<open>
  The text block appended to \<^verbatim>\<open>matches\<close> for an admitted record:
  \<^verbatim>\<open>int(float(shares))\<close> is computed first, the f-string then formats its fields from
  left to right, \<^verbatim>\<open>float(finnhub_total)\<close> last.
\<close>

definition total_text :: "pyval \<Rightarrow> exn + string" where
  "total_text finnhub_total =
     (if truthy finnhub_total then
        (case py_float finnhub_total of
           Inl e \<Rightarrow> Inl e
         | Inr t \<Rightarrow> Inr (''$'' @ fmt_float_commas t))
      else Inr ''N/A'')"

definition match_entry :: "ipo \<Rightarrow> string \<Rightarrow> pyfloat \<Rightarrow> exn + string" where
  "match_entry ipo status offer =
     (let symbol = get_symbol ipo;
          name = get_name ipo;
          exchange = get_exchange ipo;
          price_raw = get_price ipo;
          shares = get_shares ipo;
          finnhub_total = get_total ipo
      in case py_float shares of
           Inl e \<Rightarrow> Inl e
         | Inr shares_f \<Rightarrow>
             (case int_of_float shares_f of
                Inl e \<Rightarrow> Inl e
              | Inr shares_int \<Rightarrow>
                  (case total_text finnhub_total of
                     Inl e \<Rightarrow> Inl e
                   | Inr total_txt \<Rightarrow>
                       Inr (py_str symbol @ '' ('' @ py_str name @ '')'' @ nl
                            @ ''  Exchange: '' @ py_str exchange @ nl
                            @ ''  Status: '' @ status @ nl
                            @ ''  Price: '' @ py_str price_raw
                            @ '' | Shares: '' @ fmt_int_commas shares_int @ nl
                            @ ''  Est. Offer: $'' @ fmt_float_commas offer @ nl
                            @ ''  Finnhub totalSharesValue: '' @ total_txt))))"

definition loop_body :: "string \<Rightarrow> string list \<Rightarrow> ipo \<Rightarrow> exn + string list" where
  "loop_body today matches ipo =
     (case eligibility today ipo of
        Inl e \<Rightarrow> Inl e
      | Inr Rejected \<Rightarrow> Inr matches
      | Inr (Admitted status offer) \<Rightarrow>
          (case match_entry ipo status offer of
             Inl e \<Rightarrow> Inl e
           | Inr m \<Rightarrow> Inr (matches @ [m])))"

text \<open>The \<^verbatim>\<open>for\<close> loop: an exception ends it.\<close>

fun run_loop :: "string \<Rightarrow> string list \<Rightarrow> ipo list \<Rightarrow> exn + string list" where
  "run_loop today matches [] = Inr matches"
| "run_loop today matches (ipo # ipos) =
     (case loop_body today matches ipo of
        Inl e \<Rightarrow> Inl e
      | Inr matches' \<Rightarrow> run_loop today matches' ipos)"

subsection \<open>The report\<close>

definition separator :: string where
  "separator = nl @ ''---------------------------------------'' @ nl"

definition header :: string where
  "header = ''Same-day US IPOs exceeding $200M:'' @ nl @ nl"

definition format_report :: "string \<Rightarrow> string list \<Rightarrow> string \<times> string" where
  "format_report today matches =
     (if matches \<noteq> [] then
        (''IPO Report ['' @ today @ '']: '' @ str_int (int (length matches)) @ '' tickers > $200M'',
         header @ py_join separator matches)
      else
        (''IPO Report ['' @ today @ '']: No tickers > $200M'',
         ''Automation ran successfully. No same-day US IPOs exceeded $200M (price ''
         @ [CHR 0xD7] @ '' shares).''))"

text \<open>
  The filter and the report together: from the fetched records to the subject and the
  body handed to \<^verbatim>\<open>send_email\<close>, or the exception that leaves the loop.
\<close>

definition run_core :: "string \<Rightarrow> ipo list \<Rightarrow> exn + string \<times> string" where
  "run_core today ipos =
     (case run_loop today [] ipos of
        Inl e \<Rightarrow> Inl e
      | Inr matches \<Rightarrow> Inr (format_report today matches))"

subsection \<open>Notions used to state the properties\<close>

text \<open>A record is admitted when the filter lets it through.\<close>

definition admitted :: "string \<Rightarrow> ipo \<Rightarrow> bool" where
  "admitted today ipo =
     (case eligibility today ipo of
        Inr (Admitted status offer) \<Rightarrow> True
      | _ \<Rightarrow> False)"

text \<open>The text block of an admitted record whose block can be built.\<close>

definition block_of :: "string \<Rightarrow> ipo \<Rightarrow> string" where
  "block_of today ipo =
     (case eligibility today ipo of
        Inr (Admitted status offer) \<Rightarrow>
          (case match_entry ipo status offer of Inr m \<Rightarrow> m | Inl e \<Rightarrow> [])
      | _ \<Rightarrow> [])"

text \<open>The keys the loop looks up, and two records that agree on them.\<close>

definition fields_read :: "string list" where
  "fields_read = [''date'', ''symbol'', ''name'', ''exchange'', ''status'', ''price'',
     ''numberOfShares'', ''totalSharesValue'']"

definition same_fields :: "ipo \<Rightarrow> ipo \<Rightarrow> bool" where
  "same_fields a b = list_all (\<lambda>k. a k = b k) fields_read"

text \<open>
  A character that is neither whitespace nor the dollar sign: the characters of a numeric
  literal are of this kind.
\<close>

definition plain_char :: "char \<Rightarrow> bool" where
  "plain_char c = (\<not> is_space c \<and> c \<noteq> CHR ''$'')"

text \<open>
  The record of the specification's example: priced on NASDAQ, price range 10 to 20,
  twenty million shares.
\<close>

definition example_ipo :: ipo where
  "example_ipo =
     [''date'' \<mapsto> PStr ''2026-01-05'', ''status'' \<mapsto> PStr ''priced'',
      ''exchange'' \<mapsto> PStr ''NASDAQ'', ''symbol'' \<mapsto> PStr ''AAA'',
      ''price'' \<mapsto> PStr ''10-20'', ''numberOfShares'' \<mapsto> PStr ''20000000'']"

text \<open>
  A second admitted record, with a name, an integer share count and a total, and a record
  whose status is outside the two accepted ones.
\<close>

definition second_ipo :: ipo where
  "second_ipo =
     example_ipo(''symbol'' \<mapsto> PStr ''BBB'', ''name'' \<mapsto> PStr ''Beta Corp'',
       ''numberOfShares'' \<mapsto> PInt 30000000, ''totalSharesValue'' \<mapsto> PFloat (Fin 450000000))"

definition withdrawn_ipo :: ipo where
  "withdrawn_ipo = example_ipo(''status'' \<mapsto> PStr ''withdrawn'')"

section \<open>Lemmas\<close>

subsection \<open>A text without a hyphen never reads as a negative float\<close>

lemma hyphen_not_space: "\<not> is_space CHR ''-''"
  by (simp add: is_space_def code_def)

lemma is_digit_code: "is_digit c \<Longrightarrow> 48 \<le> code c \<and> code c \<le> 57"
  by (auto simp: is_digit_def code_def)

lemma float_space_is_space: "is_float_space c \<Longrightarrow> is_space c"
  by (auto simp: is_float_space_def is_space_def Let_def)

lemma pow2_pos: "0 < pow2 k"
  by (simp add: pow2_def)

lemma pow10_pos: "0 < pow10 k"
  by (simp add: pow10_def)

lemma round_half_even_nonneg: "0 \<le> x \<Longrightarrow> 0 \<le> round_half_even x"
  by (auto simp: round_half_even_def Let_def)

lemma round_mag_nonneg: "0 \<le> q \<Longrightarrow> round_mag q = Some r \<Longrightarrow> 0 \<le> r"
  by (auto simp: round_mag_def Let_def pow2_pos round_half_even_nonneg less_imp_le split: if_splits)

lemma mk_float_pos_sign: "0 \<le> q \<Longrightarrow> \<not> fsign (mk_float False q)"
  by (auto simp: mk_float_def dest: round_mag_nonneg split: option.splits)

lemma digits_val_nonneg_aux: "list_all is_digit ds \<Longrightarrow> 0 \<le> a \<Longrightarrow> 0 \<le> foldl (\<lambda>a c. 10 * a + (int (code c) - 48)) a ds"
proof (induction ds arbitrary: a)
  case Nil then show ?case by simp
next
  case (Cons d ds)
  from Cons.prems have "48 \<le> code d" using is_digit_code by simp
  with Cons.prems have "0 \<le> 10 * a + (int (code d) - 48)" by simp
  with Cons show ?case by simp
qed

lemma digits_val_nonneg: "list_all is_digit ds \<Longrightarrow> 0 \<le> digits_val ds"
  by (simp add: digits_val_def digits_val_nonneg_aux)

lemma takeWhile_all: "list_all P (takeWhile P xs)"
  by (induction xs) auto

lemma parse_decimal_sign: "parse_decimal False r = Some x \<Longrightarrow> \<not> fsign x"
  by (auto simp: parse_decimal_def Let_def takeWhile_all digits_val_nonneg pow10_pos less_imp_le
      intro!: mk_float_pos_sign split: option.splits if_splits list.splits)

lemma split_sign_no_hyphen: "CHR ''-'' \<notin> set s \<Longrightarrow> split_sign s = (neg, r) \<Longrightarrow> \<not> neg"
  by (cases s) (auto split: if_splits)

lemma parse_float_sign: "CHR ''-'' \<notin> set s \<Longrightarrow> parse_float s = Some x \<Longrightarrow> \<not> fsign x"
proof -
  assume a: "CHR ''-'' \<notin> set s" and b: "parse_float s = Some x"
  obtain neg r where sr: "split_sign s = (neg, r)" by (cases "split_sign s")
  with a have n: "\<not> neg" by (auto dest: split_sign_no_hyphen)
  from b sr n show ?thesis
    by (auto simp: parse_float_def split: if_splits dest: parse_decimal_sign)
qed

lemma set_strip_with: "set (strip_with P s) \<subseteq> set s"
  by (auto simp: strip_with_def dest!: set_dropWhileD)

lemma float_of_str_sign: "CHR ''-'' \<notin> set s \<Longrightarrow> float_of_str s = Inr x \<Longrightarrow> \<not> fsign x"
proof -
  assume a: "CHR ''-'' \<notin> set s" and b: "float_of_str s = Inr x"
  let ?v = "strip_with is_float_space s"
  let ?u = "filter (\<lambda>c. c \<noteq> CHR ''_'') ?v"
  from a set_strip_with[of is_float_space s] have "CHR ''-'' \<notin> set ?u" by auto
  moreover from b have "parse_float ?u = Some x"
    by (auto simp: float_of_str_def Let_def split: if_splits option.splits)
  ultimately show ?thesis by (rule parse_float_sign)
qed

lemma float_of_str_error: "float_of_str s = Inl e \<Longrightarrow> e = ValueError"
  by (auto simp: float_of_str_def Let_def split: if_splits option.splits)

subsection \<open>Splitting at hyphens\<close>

lemma py_split_not_Nil: "py_split c s \<noteq> []"
  by (induction s) (auto split: list.splits)

lemma py_split_no_sep: "p \<in> set (py_split c s) \<Longrightarrow> c \<notin> set p"
  by (induction s arbitrary: p) (auto split: list.splits if_splits)

lemma py_split_absent: "c \<notin> set s \<Longrightarrow> py_split c s = [s]"
  by (induction s) auto

lemma py_split_append: "c \<notin> set a \<Longrightarrow> py_split c (a @ c # rest) = a # py_split c rest"
  by (induction a) (auto split: list.splits simp: py_split_not_Nil)

lemma price_parts_no_hyphen: "p \<in> set (price_parts s) \<Longrightarrow> CHR ''-'' \<notin> set p"
  using set_strip_with[of is_space] by (auto simp: price_parts_def py_strip_def dest!: py_split_no_sep)

lemma price_try_sign: "price_try s = Inr (l, h) \<Longrightarrow> \<not> fsign l \<and> \<not> fsign h"
proof (cases "CHR ''-'' \<in> set s")
  case False
  assume "price_try s = Inr (l, h)"
  with False show ?thesis
    by (auto simp: price_try_def split: sum.splits dest: float_of_str_sign)
next
  case True
  assume r: "price_try s = Inr (l, h)"
  let ?ps = "price_parts s"
  show ?thesis
  proof (cases "2 \<le> length ?ps")
    case two: True
    then have "0 < length ?ps" and "1 < length ?ps" by linarith+
    then have "?ps ! 0 \<in> set ?ps" and "?ps ! 1 \<in> set ?ps"
      by (simp_all only: nth_mem)
    then have "CHR ''-'' \<notin> set (?ps ! 0)" "CHR ''-'' \<notin> set (?ps ! 1)"
      by (auto dest: price_parts_no_hyphen)
    with r True two show ?thesis
      by (auto simp: price_try_def Let_def split: sum.splits dest: float_of_str_sign)
  next
    case one: False
    with r True have ne: "?ps \<noteq> []"
      by (auto simp: price_try_def Let_def split: if_splits)
    then have "last ?ps \<in> set ?ps" by simp
    then have "CHR ''-'' \<notin> set (last ?ps)" by (rule price_parts_no_hyphen)
    with r True one ne show ?thesis
      by (auto simp: price_try_def Let_def split: sum.splits dest: float_of_str_sign)
  qed
qed

lemma parse_price_range_sign:
  "parse_price_range price_raw = Inr (l, h) \<Longrightarrow> \<not> fsign l \<and> \<not> fsign h"
  by (auto simp: parse_price_range_def Let_def split: if_splits dest: price_try_sign)

lemma not_fsign_not_negative: "\<not> fsign x \<Longrightarrow> \<not> flt x (Fin 0)"
  by (cases x) (auto simp: flt_def)

subsection \<open>The loop and the report\<close>

lemmas field_eval = get_date_def get_symbol_def get_name_def get_exchange_def get_price_def
  get_shares_def get_total_def dict_get_def

lemma py_join_Cons: "py_join sep (m # ms) = m @ concat (map (\<lambda>x. sep @ x) ms)"
  by (induction ms arbitrary: m) auto

lemma loop_body_result:
  "loop_body today acc ipo = Inr acc' \<Longrightarrow>
   acc' = acc @ (if admitted today ipo then [block_of today ipo] else [])"
  by (auto simp: loop_body_def admitted_def block_of_def split: sum.splits verdict.splits)

lemma run_loop_blocks:
  "run_loop today acc ipos = Inr ms \<Longrightarrow>
   ms = acc @ map (block_of today) (filter (admitted today) ipos)"
proof (induction ipos arbitrary: acc)
  case Nil
  then show ?case by simp
next
  case (Cons ipo ipos)
  from Cons.prems obtain acc' where b: "loop_body today acc ipo = Inr acc'"
    and r: "run_loop today acc' ipos = Inr ms"
    by (auto split: sum.splits)
  from Cons.IH[OF r] loop_body_result[OF b] show ?case by simp
qed

lemma run_loop_entries:
  "run_loop today acc ipos = Inr ms \<Longrightarrow> ipo \<in> set ipos \<Longrightarrow>
   eligibility today ipo = Inr (Admitted status offer) \<Longrightarrow>
   \<exists>m. match_entry ipo status offer = Inr m"
proof (induction ipos arbitrary: acc)
  case Nil
  then show ?case by simp
next
  case (Cons x xs)
  from Cons.prems(1) obtain acc' where b: "loop_body today acc x = Inr acc'"
    and r: "run_loop today acc' xs = Inr ms"
    by (auto split: sum.splits)
  show ?case
  proof (cases "ipo = x")
    case True
    with b Cons.prems(3) show ?thesis
      by (auto simp: loop_body_def split: sum.splits)
  next
    case False
    with Cons.prems(2) have "ipo \<in> set xs" by simp
    from Cons.IH[OF r this Cons.prems(3)] show ?thesis .
  qed
qed

lemma match_entry_layout:
  assumes "match_entry ipo status offer = Inr m"
  shows "\<exists>shares_f shares_int total.
          py_float (get_shares ipo) = Inr shares_f \<and> int_of_float shares_f = Inr shares_int
          \<and> total_text (get_total ipo) = Inr total
          \<and> m = py_str (get_symbol ipo) @ '' ('' @ py_str (get_name ipo) @ '')'' @ [CHR 0x0A]
                @ ''  Exchange: '' @ py_str (get_exchange ipo) @ [CHR 0x0A]
                @ ''  Status: '' @ status @ [CHR 0x0A]
                @ ''  Price: '' @ py_str (get_price ipo)
                @ '' | Shares: '' @ fmt_int_commas shares_int @ [CHR 0x0A]
                @ ''  Est. Offer: $'' @ fmt_float_commas offer @ [CHR 0x0A]
                @ ''  Finnhub totalSharesValue: '' @ total"
  using assms by (auto simp: match_entry_def Let_def nl_def split: sum.splits)

lemma block_of_entry:
  "eligibility today ipo = Inr (Admitted status offer) \<Longrightarrow>
   match_entry ipo status offer = Inr m \<Longrightarrow> block_of today ipo = m"
  by (simp add: block_of_def)


subsection \<open>Records that agree on the fields read\<close>

lemma same_fields_eligibility:
  "same_fields a b \<Longrightarrow> eligibility today a = eligibility today b"
  by (simp add: same_fields_def fields_read_def eligibility_def field_eval status_of_def)

lemma same_fields_entry:
  "same_fields a b \<Longrightarrow> match_entry a st off = match_entry b st off"
  by (simp add: same_fields_def fields_read_def match_entry_def field_eval)

lemma same_fields_loop_body:
  "same_fields a b \<Longrightarrow> loop_body today acc a = loop_body today acc b"
  by (simp add: loop_body_def same_fields_eligibility[of a b] same_fields_entry[of a b]
      split: sum.splits verdict.splits)

lemma same_fields_run_loop:
  "list_all2 same_fields xs ys \<Longrightarrow> run_loop today acc xs = run_loop today acc ys"
proof (induction xs ys arbitrary: acc rule: list_all2_induct)
  case Nil
  then show ?case by simp
next
  case (Cons x xs y ys)
  then show ?case by (simp add: same_fields_loop_body[of x y] split: sum.splits)
qed

lemma run_core_same_fields:
  "list_all2 same_fields ipos1 ipos2 \<Longrightarrow> run_core today ipos1 = run_core today ipos2"
  by (simp add: run_core_def same_fields_run_loop[of ipos1 ipos2])

subsection \<open>The branches of \<^verbatim>\<open>parse_price_range\<close>\<close>

lemma parse_price_range_unfold:
  "parse_price_range price_raw =
     (if price_raw = PNone \<or> clean_price price_raw = [] \<or> clean_price price_raw = ''-''
         \<or> price_try (clean_price price_raw) = Inl ValueError
      then Inr (Fin 0, Fin 0) else price_try (clean_price price_raw))"
  by (simp add: parse_price_range_def Let_def)

lemma price_try_plain:
  "CHR ''-'' \<notin> set s \<Longrightarrow>
   price_try s = (case float_of_str s of Inl e \<Rightarrow> Inl e | Inr v \<Rightarrow> Inr (v, v))"
  by (simp add: price_try_def)

lemma price_try_single:
  "CHR ''-'' \<in> set s \<Longrightarrow> price_parts s = [p] \<Longrightarrow>
   price_try s = (case float_of_str p of Inl e \<Rightarrow> Inl e | Inr v \<Rightarrow> Inr (v, v))"
  by (simp add: price_try_def)

lemma price_try_range:
  "CHR ''-'' \<in> set s \<Longrightarrow> price_parts s = p # q # rest \<Longrightarrow>
   price_try s =
     (case float_of_str p of
        Inl e \<Rightarrow> Inl e
      | Inr low \<Rightarrow> (case float_of_str q of Inl e \<Rightarrow> Inl e | Inr high \<Rightarrow> Inr (low, high)))"
  by (simp add: price_try_def split: sum.splits)

lemma price_try_same:
  "CHR ''-'' \<notin> set s \<or> length (price_parts s) < 2 \<Longrightarrow> price_try s = Inr (low, high) \<Longrightarrow> low = high"
  by (auto simp: price_try_def Let_def split: if_splits sum.splits)

lemma soft_fail_cases:
  "parse_price_range PNone = Inr (Fin 0, Fin 0)
   \<and> (clean_price price_raw = [] \<or> clean_price price_raw = ''-''
        \<longrightarrow> parse_price_range price_raw = Inr (Fin 0, Fin 0))
   \<and> (CHR ''-'' \<notin> set (clean_price price_raw) \<and> float_of_str (clean_price price_raw) = Inl e
        \<longrightarrow> parse_price_range price_raw = Inr (Fin 0, Fin 0))
   \<and> (CHR ''-'' \<in> set (clean_price price_raw) \<and> price_parts (clean_price price_raw) = [p]
        \<and> float_of_str p = Inl e
        \<longrightarrow> parse_price_range price_raw = Inr (Fin 0, Fin 0))
   \<and> (CHR ''-'' \<in> set (clean_price price_raw)
        \<and> price_parts (clean_price price_raw) = p # q # rest
        \<and> (float_of_str p = Inl e \<or> float_of_str q = Inl e)
        \<longrightarrow> parse_price_range price_raw = Inr (Fin 0, Fin 0))"
proof (intro conjI impI)
  show "parse_price_range PNone = Inr (Fin 0, Fin 0)"
    by (simp add: parse_price_range_def)
next
  assume "clean_price price_raw = [] \<or> clean_price price_raw = ''-''"
  then show "parse_price_range price_raw = Inr (Fin 0, Fin 0)"
    by (auto simp: parse_price_range_unfold)
next
  assume a: "CHR ''-'' \<notin> set (clean_price price_raw) \<and> float_of_str (clean_price price_raw) = Inl e"
  then have "e = ValueError" by (auto dest: float_of_str_error)
  with a have "price_try (clean_price price_raw) = Inl ValueError"
    by (simp add: price_try_plain)
  then show "parse_price_range price_raw = Inr (Fin 0, Fin 0)"
    by (simp add: parse_price_range_unfold)
next
  assume a: "CHR ''-'' \<in> set (clean_price price_raw) \<and> price_parts (clean_price price_raw) = [p]
        \<and> float_of_str p = Inl e"
  then have "e = ValueError" by (auto dest: float_of_str_error)
  with a have "price_try (clean_price price_raw) = Inl ValueError"
    by (simp add: price_try_single)
  then show "parse_price_range price_raw = Inr (Fin 0, Fin 0)"
    by (simp add: parse_price_range_unfold)
next
  assume a: "CHR ''-'' \<in> set (clean_price price_raw)
        \<and> price_parts (clean_price price_raw) = p # q # rest
        \<and> (float_of_str p = Inl e \<or> float_of_str q = Inl e)"
  then have e: "e = ValueError" by (auto dest: float_of_str_error)
  from a have "price_try (clean_price price_raw) =
     (case float_of_str p of
        Inl e \<Rightarrow> Inl e
      | Inr low \<Rightarrow> (case float_of_str q of Inl e \<Rightarrow> Inl e | Inr high \<Rightarrow> Inr (low, high)))"
    by (simp add: price_try_range)
  with a e have "price_try (clean_price price_raw) = Inl ValueError"
    by (auto split: sum.splits dest: float_of_str_error)
  then show "parse_price_range price_raw = Inr (Fin 0, Fin 0)"
    by (simp add: parse_price_range_unfold)
qed

subsection \<open>Offers and admitted records\<close>

lemma round_mag_0: "round_mag 0 = Some 0"
  by (simp add: round_mag_def)

lemma fmul_zero: "0 \<le> a \<Longrightarrow> fmul (Fin a) (Fin 0) = Fin 0"
  by (simp add: fmul_def is_inf_def mk_float_def round_mag_0)

lemma shares_float_default:
  "shares = PNone \<or> py_float shares = Inl ValueError \<or> py_float shares = Inl TypeError
   \<Longrightarrow> shares_float shares = Inr (Fin 0)"
  by (auto simp: shares_float_def)

lemma fmul_zero_not_gt:
  "is_zero y \<or> y = NaN \<Longrightarrow> 0 \<le> n \<Longrightarrow> \<not> fgt_int (fmul x y) n"
  by (cases x) (auto simp: fmul_def is_zero_def is_inf_def mk_float_def round_mag_0)

lemma shares_float_Inr:
  "shares \<noteq> PNone \<Longrightarrow> shares_float shares = Inr shares_f \<Longrightarrow>
   py_float shares = Inr shares_f \<or> shares_f = Fin 0"
  by (auto simp: shares_float_def split: sum.splits if_splits)

lemma eligibility_AdmittedD:
  "eligibility today ipo = Inr (Admitted status offer) \<Longrightarrow>
   get_shares ipo \<noteq> PNone \<and>
   (\<exists>low. compute_offer (get_price ipo) (get_shares ipo) = Inr (low, offer))
   \<and> fgt_int offer THRESHOLD_USD"
  by (auto simp: eligibility_def Let_def split: sum.splits if_splits prod.splits)

lemma admitted_shares:
  assumes "eligibility today ipo = Inr (Admitted status offer)"
  shows "\<exists>shares_f. py_float (get_shares ipo) = Inr shares_f \<and> \<not> is_zero shares_f \<and> shares_f \<noteq> NaN"
proof -
  from eligibility_AdmittedD[OF assms] obtain low where
    n: "get_shares ipo \<noteq> PNone" and
    c: "compute_offer (get_price ipo) (get_shares ipo) = Inr (low, offer)" and
    g: "fgt_int offer THRESHOLD_USD" by blast
  from c obtain shares_f l h where s: "shares_float (get_shares ipo) = Inr shares_f"
    and o: "offer = fmul h shares_f"
    by (auto simp: compute_offer_def split: sum.splits prod.splits)
  from g o have z: "\<not> (is_zero shares_f \<or> shares_f = NaN)"
    using fmul_zero_not_gt[of shares_f THRESHOLD_USD h] by (auto simp: THRESHOLD_USD_def)
  then have "shares_f \<noteq> Fin 0" by (auto simp: is_zero_def)
  with shares_float_Inr[OF n s] have "py_float (get_shares ipo) = Inr shares_f" by simp
  with z show ?thesis by blast
qed

lemma int_of_float_finite: "\<not> is_inf x \<Longrightarrow> x \<noteq> NaN \<Longrightarrow> \<exists>n. int_of_float x = Inr n"
  by (cases x) (auto simp: is_inf_def)

subsection \<open>Substrings\<close>

text \<open>\<open>substr\<close> computes the containment of a contiguous substring.\<close>

lemma substr_iff: "substr p s \<longleftrightarrow> (\<exists>a b. s = a @ p @ b)"
proof (induction s)
  case Nil
  then show ?case by auto
next
  case (Cons c cs)
  have pre: "take (length p) (c # cs) = p \<longleftrightarrow> (\<exists>b. c # cs = p @ b)"
    by (metis append_eq_conv_conj append_take_drop_id)
  have "(\<exists>a b. c # cs = a @ p @ b) \<longleftrightarrow> (\<exists>b. c # cs = p @ b) \<or> (\<exists>a b. cs = a @ p @ b)"
  proof
    assume "\<exists>a b. c # cs = a @ p @ b"
    then obtain a b where e: "c # cs = a @ p @ b" by blast
    show "(\<exists>b. c # cs = p @ b) \<or> (\<exists>a b. cs = a @ p @ b)"
    proof (cases a)
      case Nil
      with e show ?thesis by auto
    next
      case (Cons x xs)
      with e have "cs = xs @ p @ b" by simp
      then show ?thesis by blast
    qed
  next
    assume "(\<exists>b. c # cs = p @ b) \<or> (\<exists>a b. cs = a @ p @ b)"
    then show "\<exists>a b. c # cs = a @ p @ b"
    proof
      assume "\<exists>b. c # cs = p @ b"
      then obtain b where "c # cs = [] @ p @ b" by auto
      then show ?thesis by blast
    next
      assume "\<exists>a b. cs = a @ p @ b"
      then obtain a b where "c # cs = (c # a) @ p @ b" by auto
      then show ?thesis by blast
    qed
  qed
  with Cons pre show ?case by simp
qed

subsection \<open>The characters of a numeric literal\<close>

lemma digit_plain: "is_digit c \<Longrightarrow> plain_char c"
  by (auto simp: is_digit_def plain_char_def is_space_def code_def)

lemma digits_plain: "list_all is_digit ds \<Longrightarrow> list_all plain_char ds"
  by (induction ds) (auto simp: digit_plain)

lemma split_sign_plain: "split_sign s = (neg, r) \<Longrightarrow> list_all plain_char r \<Longrightarrow> list_all plain_char s"
  by (cases s) (auto simp: plain_char_def is_space_def code_def split: if_splits)

lemma parse_exponent_plain: "parse_exponent r = Some ex \<Longrightarrow> list_all plain_char r"
proof (cases r)
  case Nil
  then show ?thesis by simp
next
  case (Cons c cs)
  assume a: "parse_exponent r = Some ex"
  obtain neg ds where s: "split_sign cs = (neg, ds)" by (cases "split_sign cs")
  from a Cons s have c: "c = CHR ''e'' \<or> c = CHR ''E''" and d: "list_all is_digit ds"
    by (auto simp: parse_exponent_def split: if_splits)
  from d have "list_all plain_char ds" by (rule digits_plain)
  with s have "list_all plain_char cs" by (rule split_sign_plain)
  moreover from c have "plain_char c" by (auto simp: plain_char_def is_space_def code_def)
  ultimately show ?thesis using Cons by simp
qed

lemma list_all_take_drop:
  "list_all Q (takeWhile P xs) \<Longrightarrow> list_all Q (dropWhile P xs) \<Longrightarrow> list_all Q xs"
  by (metis list_all_append takeWhile_dropWhile_id)

lemma takeWhile_digits_plain: "list_all plain_char (takeWhile is_digit r)"
  by (induction r) (auto simp: digit_plain)

lemma parse_decimal_plain:
  assumes "parse_decimal neg r = Some x"
  shows "list_all plain_char r"
proof -
  let ?r1 = "dropWhile is_digit r"
  have "list_all plain_char ?r1"
  proof (cases ?r1)
    case Nil
    then show ?thesis by (simp only: list.pred_inject)
  next
    case (Cons c cs)
    show ?thesis
    proof (cases "c = CHR ''.''")
      case True
      with assms Cons obtain ex where "parse_exponent (dropWhile is_digit cs) = Some ex"
        by (auto simp: parse_decimal_def Let_def split: if_splits option.splits)
      then have "list_all plain_char (dropWhile is_digit cs)" by (rule parse_exponent_plain)
      with takeWhile_digits_plain[of cs] have "list_all plain_char cs"
        by (rule list_all_take_drop)
      moreover from True have "plain_char c" by (simp add: plain_char_def is_space_def code_def)
      ultimately show ?thesis using Cons by simp
    next
      case False
      with assms Cons obtain ex where "parse_exponent ?r1 = Some ex"
        by (auto simp: parse_decimal_def Let_def split: if_splits option.splits)
      then show ?thesis by (rule parse_exponent_plain)
    qed
  qed
  with takeWhile_digits_plain[of r] show ?thesis
    by (rule list_all_take_drop)
qed

lemma ascii_lower_plain: "ascii_lower c \<in> set ''infinityna'' \<Longrightarrow> plain_char c"
proof (cases "65 \<le> code c \<and> code c \<le> 90")
  case True
  then show ?thesis by (auto simp: plain_char_def is_space_def code_def Let_def)
next
  case False
  assume "ascii_lower c \<in> set ''infinityna''"
  moreover from False have "ascii_lower c = c" by (auto simp: ascii_lower_def Let_def)
  ultimately have "c \<in> set ''infinityna''" by simp
  then show ?thesis by (auto simp: plain_char_def is_space_def code_def)
qed

lemma word_plain:
  "list_all (\<lambda>c. ascii_lower c \<in> set ''infinityna'') r \<Longrightarrow> list_all plain_char r"
  by (induction r) (auto simp del: set_simps list.set intro: ascii_lower_plain)

lemma map_eq_list_all: "map f r = ys \<Longrightarrow> list_all (\<lambda>c. f c \<in> set ys) r"
  by (auto simp: list_all_iff)

lemma special_plain:
  assumes "map ascii_lower r = ''inf'' \<or> map ascii_lower r = ''infinity'' \<or> map ascii_lower r = ''nan''"
  shows "list_all plain_char r"
proof -
  from assms have "list_all (\<lambda>c. ascii_lower c \<in> set ''infinityna'') r"
  proof (elim disjE)
    assume "map ascii_lower r = ''inf''"
    then have "list_all (\<lambda>c. ascii_lower c \<in> set ''inf'') r" by (rule map_eq_list_all)
    then show ?thesis by (rule list.pred_mono_strong) auto
  next
    assume "map ascii_lower r = ''infinity''"
    then have "list_all (\<lambda>c. ascii_lower c \<in> set ''infinity'') r" by (rule map_eq_list_all)
    then show ?thesis by (rule list.pred_mono_strong) auto
  next
    assume "map ascii_lower r = ''nan''"
    then have "list_all (\<lambda>c. ascii_lower c \<in> set ''nan'') r" by (rule map_eq_list_all)
    then show ?thesis by (rule list.pred_mono_strong) auto
  qed
  then show ?thesis by (rule word_plain)
qed

lemma parse_float_plain:
  assumes "parse_float u = Some x"
  shows "list_all plain_char u"
proof -
  obtain neg r where s: "split_sign u = (neg, r)" by (cases "split_sign u")
  have "list_all plain_char r"
  proof (cases "map ascii_lower r = ''inf'' \<or> map ascii_lower r = ''infinity'' \<or> map ascii_lower r = ''nan''")
    case True
    then show ?thesis by (rule special_plain)
  next
    case False
    with assms s have "parse_decimal neg r = Some x"
      by (auto simp: parse_float_def split: if_splits)
    then show ?thesis by (rule parse_decimal_plain)
  qed
  with s show ?thesis by (rule split_sign_plain)
qed

lemma underscore_plain: "plain_char CHR ''_''"
  by (simp add: plain_char_def is_space_def code_def)

lemma filter_plain:
  "list_all plain_char (filter (\<lambda>c. c \<noteq> CHR ''_'') v) \<Longrightarrow> list_all plain_char v"
  by (induction v) (auto simp: underscore_plain split: if_splits)

lemma float_of_str_plain:
  assumes "float_of_str a = Inr x"
  shows "strip_with is_float_space a \<noteq> [] \<and> list_all plain_char (strip_with is_float_space a)"
proof -
  let ?v = "strip_with is_float_space a"
  from assms have n: "?v \<noteq> []" and p: "parse_float (filter (\<lambda>c. c \<noteq> CHR ''_'') ?v) = Some x"
    by (auto simp: float_of_str_def Let_def split: if_splits option.splits)
  from p have "list_all plain_char (filter (\<lambda>c. c \<noteq> CHR ''_'') ?v)" by (rule parse_float_plain)
  then have "list_all plain_char ?v" by (rule filter_plain)
  with n show ?thesis by simp
qed

subsection \<open>Stripping\<close>

lemma dropWhile_mid: "\<not> P x \<Longrightarrow> dropWhile P (a @ x # b) = dropWhile P a @ x # b"
  by (induction a) auto

lemma strip_with_mid:
  "\<not> P x \<Longrightarrow> strip_with P (a @ x # b) = dropWhile P a @ x # rev (dropWhile P (rev b))"
  by (simp add: strip_with_def dropWhile_mid)

lemma dropWhile_all: "list_all P w \<Longrightarrow> dropWhile P (w @ ys) = dropWhile P ys"
  by (induction w) auto

lemma strip_with_sandwich:
  assumes "list_all P w1" "list_all P w2" "v \<noteq> []" "\<not> P (hd v)" "\<not> P (last v)"
  shows "strip_with P (w1 @ v @ w2) = v"
proof -
  from assms(3,4) have "dropWhile P v = v" by (cases v) auto
  with assms(1,3,4) have l: "dropWhile P (w1 @ v @ w2) = v @ w2"
    by (cases v) (auto simp: dropWhile_all)
  from assms(2) have "list_all P (rev w2)" by (simp add: list_all_iff)
  then have "dropWhile P (rev w2 @ rev v) = dropWhile P (rev v)" by (rule dropWhile_all)
  also from assms(3,5) have "dropWhile P (rev v) = rev v"
    by (cases v rule: rev_cases) auto
  finally show ?thesis using l by (simp add: strip_with_def)
qed

lemma strip_with_decomp:
  "\<exists>w1 w2. s = w1 @ strip_with P s @ w2 \<and> list_all P w1 \<and> list_all P w2"
proof -
  let ?t = "dropWhile P s"
  let ?w2 = "rev (takeWhile P (rev ?t))"
  have "?t = rev (dropWhile P (rev ?t)) @ ?w2"
    by (metis rev_append rev_rev_ident takeWhile_dropWhile_id)
  then have "?t = strip_with P s @ ?w2" by (simp add: strip_with_def)
  then have "s = takeWhile P s @ strip_with P s @ ?w2"
    by (metis takeWhile_dropWhile_id)
  moreover have "list_all P (takeWhile P s)" by (rule takeWhile_all)
  moreover have "list_all P ?w2" using takeWhile_all[of P "rev ?t"] by (simp add: list_all_iff)
  ultimately show ?thesis by blast
qed

text \<open>The shape of a text that \<^verbatim>\<open>float\<close> accepts: a literal between whitespace.\<close>

lemma numeric_shape:
  assumes "float_of_str a = Inr x"
  shows "\<exists>w1 v w2. a = w1 @ v @ w2 \<and> list_all is_space w1 \<and> list_all is_space w2
           \<and> v \<noteq> [] \<and> list_all plain_char v \<and> float_of_str v = Inr x"
proof -
  let ?v = "strip_with is_float_space a"
  from float_of_str_plain[OF assms] have n: "?v \<noteq> []" and p: "list_all plain_char ?v" by simp_all
  obtain w1 w2 where d: "a = w1 @ ?v @ w2" "list_all is_float_space w1" "list_all is_float_space w2"
    using strip_with_decomp[of a is_float_space] by blast
  from d(2,3) have s: "list_all is_space w1" "list_all is_space w2"
    by (auto simp: list_all_iff float_space_is_space)
  from n p have "plain_char (hd ?v)" "plain_char (last ?v)" by (auto simp: list_all_iff)
  then have "\<not> is_float_space (hd ?v)" "\<not> is_float_space (last ?v)"
    by (auto simp: plain_char_def dest: float_space_is_space)
  with n have "strip_with is_float_space ([] @ ?v @ []) = ?v"
    by (intro strip_with_sandwich) simp_all
  then have "float_of_str ?v = float_of_str a" by (simp add: float_of_str_def)
  with assms d(1) s n p show ?thesis by metis
qed

lemma plain_ends:
  "v \<noteq> [] \<Longrightarrow> list_all plain_char v \<Longrightarrow>
   \<not> is_space (hd v) \<and> \<not> is_space (last v) \<and> CHR ''$'' \<notin> set v"
  by (auto simp: list_all_iff plain_char_def)

lemma spaces_no_dollar: "list_all is_space w \<Longrightarrow> CHR ''$'' \<notin> set w"
  by (auto simp: list_all_iff is_space_def code_def)

lemma numeric_strip:
  assumes "float_of_str a = Inr x"
  shows "py_strip a \<noteq> [] \<and> float_of_str (py_strip a) = Inr x
         \<and> py_strip (dropWhile is_space a) = py_strip a
         \<and> py_strip (rev (dropWhile is_space (rev a))) = py_strip a
         \<and> CHR ''$'' \<notin> set a"
proof -
  from numeric_shape[OF assms] obtain w1 v w2 where
    a: "a = w1 @ v @ w2" and w: "list_all is_space w1" "list_all is_space w2"
    and v: "v \<noteq> []" "list_all plain_char v" and f: "float_of_str v = Inr x" by blast
  from plain_ends[OF v] have e: "\<not> is_space (hd v)" "\<not> is_space (last v)" "CHR ''$'' \<notin> set v"
    by simp_all
  from w v(1) e have s: "py_strip a = v"
    unfolding a py_strip_def by (intro strip_with_sandwich)
  from w(1) v(1) e(1) have l: "dropWhile is_space a = v @ w2"
    unfolding a by (cases v) (auto simp: dropWhile_all)
  from w(2) have "list_all is_space (rev w2)" by (simp add: list_all_iff)
  then have "dropWhile is_space (rev a) = dropWhile is_space (rev v @ rev w1)"
    unfolding a by (simp add: dropWhile_all)
  also from v(1) e(2) have "\<dots> = rev v @ rev w1" by (cases v rule: rev_cases) auto
  finally have r: "rev (dropWhile is_space (rev a)) = w1 @ v" by simp
  from w(2) v(1) e have "strip_with is_space ([] @ v @ w2) = v" by (intro strip_with_sandwich) simp_all
  then have sl: "py_strip (v @ w2) = v" by (simp add: py_strip_def)
  from w(1) v(1) e have "strip_with is_space (w1 @ v @ []) = v" by (intro strip_with_sandwich) simp_all
  then have sr: "py_strip (w1 @ v) = v" by (simp add: py_strip_def)
  from w e(3) have d: "CHR ''$'' \<notin> set a" unfolding a by (auto dest: spaces_no_dollar)
  from s l r sl sr d v(1) f show ?thesis by simp
qed

subsection \<open>Prices written as pieces between hyphens\<close>

lemma remove_dollar_id: "CHR ''$'' \<notin> set s \<Longrightarrow> remove_dollar s = s"
  by (induction s) (auto simp: remove_dollar_def)

lemma remove_dollar_append: "remove_dollar (s @ t) = remove_dollar s @ remove_dollar t"
  by (simp add: remove_dollar_def)

lemma py_strip_Nil: "py_strip [] = []"
  by (simp add: py_strip_def strip_with_def)

lemma price_parts_Cons:
  "CHR ''-'' \<notin> set p \<Longrightarrow>
   price_parts (p @ CHR ''-'' # s) =
     (if py_strip p \<noteq> [] then [py_strip p] else []) @ price_parts s"
  by (simp add: price_parts_def py_split_append)

lemma price_parts_last:
  "CHR ''-'' \<notin> set p \<Longrightarrow> price_parts p = (if py_strip p \<noteq> [] then [py_strip p] else [])"
  by (simp add: price_parts_def py_split_absent)

lemma parse_from_try:
  "price_try (clean_price price_raw) = Inr r \<Longrightarrow> price_raw \<noteq> PNone \<Longrightarrow>
   clean_price price_raw \<noteq> [] \<Longrightarrow> clean_price price_raw \<noteq> ''-'' \<Longrightarrow>
   parse_price_range price_raw = Inr r"
  by (simp add: parse_price_range_unfold)

lemma rstrip_hyphen:
  "rev (dropWhile is_space (rev (b @ CHR ''-'' # t))) =
     b @ CHR ''-'' # rev (dropWhile is_space (rev t))"
  by (simp add: dropWhile_mid hyphen_not_space)

lemma strip_hyphen:
  "py_strip (a @ CHR ''-'' # b) =
     dropWhile is_space a @ CHR ''-'' # rev (dropWhile is_space (rev b))"
  by (simp add: py_strip_def strip_with_mid hyphen_not_space)

lemma clean_first_piece:
  assumes "float_of_str a = Inr x"
  shows "clean_price (PStr (a @ CHR ''-'' # t)) =
           dropWhile is_space a @ CHR ''-'' # remove_dollar (rev (dropWhile is_space (rev t)))"
proof -
  from numeric_strip[OF assms] have "CHR ''$'' \<notin> set a" by simp
  then have "CHR ''$'' \<notin> set (dropWhile is_space a)" by (auto dest: set_dropWhileD)
  then have "remove_dollar (dropWhile is_space a) = dropWhile is_space a" by (rule remove_dollar_id)
  then show ?thesis
    by (simp add: clean_price_def strip_hyphen remove_dollar_append)
       (simp add: remove_dollar_def)
qed

lemma parts_first_piece:
  assumes "float_of_str a = Inr x" "CHR ''-'' \<notin> set a"
  shows "price_parts (dropWhile is_space a @ CHR ''-'' # s) = py_strip a # price_parts s"
proof -
  from assms(2) have "CHR ''-'' \<notin> set (dropWhile is_space a)" by (auto dest: set_dropWhileD)
  with numeric_strip[OF assms(1)] show ?thesis by (simp add: price_parts_Cons)
qed

lemma first_piece_nonempty:
  assumes "float_of_str a = Inr x"
  shows "dropWhile is_space a \<noteq> []"
proof
  assume e: "dropWhile is_space a = []"
  have "py_strip (dropWhile is_space a) = []" by (simp only: e py_strip_Nil)
  with numeric_strip[OF assms] show False by metis
qed

lemma not_lone: "l \<noteq> [] \<Longrightarrow> l @ x # t \<noteq> [y]"
  by (cases l) auto

lemma last_piece:
  assumes "float_of_str b = Inr y" "CHR ''-'' \<notin> set b"
  shows "remove_dollar (rev (dropWhile is_space (rev b))) = rev (dropWhile is_space (rev b))
         \<and> price_parts (rev (dropWhile is_space (rev b))) = [py_strip b]
         \<and> rev (dropWhile is_space (rev b)) \<noteq> []"
proof -
  let ?rb = "rev (dropWhile is_space (rev b))"
  have sub: "set ?rb \<subseteq> set b" by (auto dest: set_dropWhileD)
  from numeric_strip[OF assms(1)] have n: "py_strip b \<noteq> []" and e: "py_strip ?rb = py_strip b"
    and d: "CHR ''$'' \<notin> set b" by simp_all
  from d sub have "CHR ''$'' \<notin> set ?rb" by blast
  then have 1: "remove_dollar ?rb = ?rb" by (rule remove_dollar_id)
  from assms(2) sub have "CHR ''-'' \<notin> set ?rb" by blast
  with n e have 2: "price_parts ?rb = [py_strip b]" by (simp add: price_parts_last)
  have 3: "?rb \<noteq> []"
  proof
    assume "?rb = []"
    then have "py_strip ?rb = []" by (simp only: py_strip_Nil)
    with n e show False by simp
  qed
  from 1 2 3 show ?thesis by blast
qed

lemma two_sided:
  assumes a: "float_of_str a = Inr x" "CHR ''-'' \<notin> set a"
    and b: "float_of_str b = Inr y" "CHR ''-'' \<notin> set b"
  shows "parse_price_range (PStr (a @ CHR ''-'' # b)) = Inr (x, y)"
proof -
  let ?la = "dropWhile is_space a"
  let ?rb = "rev (dropWhile is_space (rev b))"
  from last_piece[OF b] clean_first_piece[OF a(1), of b]
  have c: "clean_price (PStr (a @ CHR ''-'' # b)) = ?la @ CHR ''-'' # ?rb" by simp
  from parts_first_piece[OF a, of ?rb] last_piece[OF b]
  have p: "price_parts (?la @ CHR ''-'' # ?rb) = py_strip a # py_strip b # []" by simp
  from numeric_strip[OF a(1)] numeric_strip[OF b(1)]
  have f: "float_of_str (py_strip a) = Inr x" "float_of_str (py_strip b) = Inr y" by simp_all
  have "price_try (?la @ CHR ''-'' # ?rb) = Inr (x, y)"
    using price_try_range[OF _ p] f by simp
  with c have "price_try (clean_price (PStr (a @ CHR ''-'' # b))) = Inr (x, y)" by simp
  then show ?thesis
  proof (rule parse_from_try)
    show "PStr (a @ CHR ''-'' # b) \<noteq> PNone" by simp
    show "clean_price (PStr (a @ CHR ''-'' # b)) \<noteq> []" by (simp add: c)
    show "clean_price (PStr (a @ CHR ''-'' # b)) \<noteq> ''-''"
      unfolding c using first_piece_nonempty[OF a(1)] by (rule not_lone)
  qed
qed

lemma two_sided_more:
  assumes a: "float_of_str a = Inr x" "CHR ''-'' \<notin> set a"
    and b: "float_of_str b = Inr y" "CHR ''-'' \<notin> set b"
  shows "parse_price_range (PStr (a @ CHR ''-'' # b @ CHR ''-'' # rest)) = Inr (x, y)"
proof -
  let ?la = "dropWhile is_space a"
  let ?t = "remove_dollar (rev (dropWhile is_space (rev rest)))"
  from numeric_strip[OF b(1)] have bd: "remove_dollar b = b" and bn: "py_strip b \<noteq> []"
    by (simp_all add: remove_dollar_id)
  have "remove_dollar (rev (dropWhile is_space (rev (b @ CHR ''-'' # rest)))) = b @ CHR ''-'' # ?t"
    by (simp only: rstrip_hyphen remove_dollar_append bd)
       (simp add: remove_dollar_def)
  with clean_first_piece[OF a(1), of "b @ CHR ''-'' # rest"]
  have c: "clean_price (PStr (a @ CHR ''-'' # b @ CHR ''-'' # rest)) = ?la @ CHR ''-'' # b @ CHR ''-'' # ?t"
    by simp
  from b(2) bn have "price_parts (b @ CHR ''-'' # ?t) = py_strip b # price_parts ?t"
    by (simp add: price_parts_Cons)
  with parts_first_piece[OF a, of "b @ CHR ''-'' # ?t"]
  have p: "price_parts (?la @ CHR ''-'' # b @ CHR ''-'' # ?t) = py_strip a # py_strip b # price_parts ?t"
    by simp
  from numeric_strip[OF a(1)] numeric_strip[OF b(1)]
  have f: "float_of_str (py_strip a) = Inr x" "float_of_str (py_strip b) = Inr y" by simp_all
  have "price_try (?la @ CHR ''-'' # b @ CHR ''-'' # ?t) = Inr (x, y)"
    using price_try_range[OF _ p] f by simp
  with c have "price_try (clean_price (PStr (a @ CHR ''-'' # b @ CHR ''-'' # rest))) = Inr (x, y)"
    by simp
  then show ?thesis
  proof (rule parse_from_try)
    show "PStr (a @ CHR ''-'' # b @ CHR ''-'' # rest) \<noteq> PNone" by simp
    show "clean_price (PStr (a @ CHR ''-'' # b @ CHR ''-'' # rest)) \<noteq> []" by (simp add: c)
    show "clean_price (PStr (a @ CHR ''-'' # b @ CHR ''-'' # rest)) \<noteq> ''-''"
      unfolding c using first_piece_nonempty[OF a(1)] by (rule not_lone)
  qed
qed

lemma price_parts_Nil: "price_parts [] = []"
  by (simp add: price_parts_def py_strip_Nil)

lemma trailing_hyphen:
  assumes a: "float_of_str a = Inr x" "CHR ''-'' \<notin> set a"
  shows "parse_price_range (PStr (a @ [CHR ''-''])) = Inr (x, x)"
proof -
  let ?la = "dropWhile is_space a"
  from clean_first_piece[OF a(1), of "[]"]
  have c: "clean_price (PStr (a @ [CHR ''-''])) = ?la @ [CHR ''-'']" by (simp add: remove_dollar_def)
  from parts_first_piece[OF a, of "[]"]
  have p: "price_parts (?la @ [CHR ''-'']) = [py_strip a]" by (simp add: price_parts_Nil)
  from numeric_strip[OF a(1)] have f: "float_of_str (py_strip a) = Inr x" by simp
  have "price_try (?la @ [CHR ''-'']) = Inr (x, x)"
    using price_try_single[OF _ p] f by simp
  with c have "price_try (clean_price (PStr (a @ [CHR ''-'']))) = Inr (x, x)" by simp
  then show ?thesis
  proof (rule parse_from_try)
    show "PStr (a @ [CHR ''-'']) \<noteq> PNone" by simp
    show "clean_price (PStr (a @ [CHR ''-''])) \<noteq> []" by (simp add: c)
    show "clean_price (PStr (a @ [CHR ''-''])) \<noteq> ''-''"
      unfolding c using first_piece_nonempty[OF a(1)] by (rule not_lone)
  qed
qed

lemma leading_hyphen:
  assumes a: "float_of_str a = Inr x" "CHR ''-'' \<notin> set a"
  shows "parse_price_range (PStr (CHR ''-'' # a)) = Inr (x, x)"
proof -
  let ?ra = "rev (dropWhile is_space (rev a))"
  have "py_strip ([] @ CHR ''-'' # a) = CHR ''-'' # ?ra"
    by (simp only: strip_hyphen) simp
  with last_piece[OF a]
  have c: "clean_price (PStr (CHR ''-'' # a)) = CHR ''-'' # ?ra"
    by (simp add: clean_price_def remove_dollar_def)
  from last_piece[OF a] price_parts_Cons[of "[]" ?ra]
  have p: "price_parts (CHR ''-'' # ?ra) = [py_strip a]" by (simp add: py_strip_Nil)
  from numeric_strip[OF a(1)] have f: "float_of_str (py_strip a) = Inr x" by simp
  have "price_try (CHR ''-'' # ?ra) = Inr (x, x)"
    using price_try_single[OF _ p] f by simp
  with c have "price_try (clean_price (PStr (CHR ''-'' # a))) = Inr (x, x)" by simp
  then show ?thesis
    using last_piece[OF a] by (intro parse_from_try) (simp_all add: c)
qed

subsection \<open>Evaluation on concrete inputs\<close>

text \<open>
  The definitions unfold on closed terms under the simplifier. These facts are the values
  used by the examples below.
\<close>

lemmas round_eval = mk_float_def round_mag_def ilog2_def bitlen.simps pow2_def pow10_def
  round_half_even_def Let_def

lemmas float_eval = float_of_str_def strip_with_def is_float_space_def code_def parse_float_def
  ascii_lower_def parse_decimal_def is_digit_def parse_exponent_def digits_val_def round_eval

lemmas price_eval = parse_price_range_def clean_price_def remove_dollar_def py_strip_def
  strip_with_def is_space_def code_def price_try_def price_parts_def Let_def

lemma float_5: "float_of_str ''5'' = Inr (Fin 5)"
  by (simp add: float_eval)

lemma ex_minus5: "parse_price_range (PStr ''-5'') = Inr (Fin 5, Fin 5)"
  by (simp add: price_eval float_5)

lemma float_7: "float_of_str ''7'' = Inr (Fin 7)"
  by (simp add: float_eval)

lemma str_int_m7: "str_int (- 7) = ''-7''"
  by (simp add: str_int_def dec_digits.simps digit_char_def)

lemma float_10: "float_of_str ''10'' = Inr (Fin 10)"
  by (simp add: float_eval)

lemma float_20: "float_of_str ''20'' = Inr (Fin 20)"
  by (simp add: float_eval)

lemma float_20000000: "float_of_str ''20000000'' = Inr (Fin 20000000)"
  by (simp add: float_eval)

lemma price_10_20: "parse_price_range (PStr ''10-20'') = Inr (Fin 10, Fin 20)"
  by (simp add: price_eval float_10 float_20)

lemma fmul_10: "fmul (Fin 10) (Fin 20000000) = Fin 200000000"
  by (simp add: fmul_def is_inf_def round_eval)

lemma fmul_20: "fmul (Fin 20) (Fin 20000000) = Fin 400000000"
  by (simp add: fmul_def is_inf_def round_eval)

lemma example_offer:
  "compute_offer (PStr ''10-20'') (PStr ''20000000'') = Inr (Fin 200000000, Fin 400000000)"
  by (simp add: compute_offer_def shares_float_def float_20000000 price_10_20 fmul_10 fmul_20)

lemma example_status: "status_of example_ipo = Inr ''priced''"
  by (simp add: status_of_def example_ipo_def dict_get_def py_lower_def lower_char_def code_def)

lemma example_eligible:
  "eligibility ''2026-01-05'' example_ipo = Inr (Admitted ''priced'' (Fin 400000000))"
  by (simp add: eligibility_def example_status)
     (simp add: example_ipo_def field_eval example_offer THRESHOLD_USD_def)

lemma example_entry:
  "match_entry example_ipo ''priced'' (Fin 400000000) =
     Inr (''AAA (N/A)'' @ nl @ ''  Exchange: NASDAQ'' @ nl @ ''  Status: priced'' @ nl
          @ ''  Price: 10-20 | Shares: 20,000,000'' @ nl @ ''  Est. Offer: $400,000,000'' @ nl
          @ ''  Finnhub totalSharesValue: N/A'')"
  by (simp add: match_entry_def example_ipo_def field_eval float_20000000 total_text_def
      fmt_int_commas_def fmt_float_commas.simps round_half_even_def dec_digits.simps group3.simps digit_char_def)

lemma str_int_2: "str_int 2 = ''2''"
  by (simp add: str_int_def dec_digits.simps digit_char_def)

lemma price_parts_hyphen: "price_parts ''-'' = []"
  by (simp add: price_parts_def py_strip_def strip_with_def)

lemma float_abc: "float_of_str ''abc'' = Inl ValueError"
  by (simp add: float_eval)

lemma float_inf: "float_of_str ''inf'' = Inr PInf"
  by (simp add: float_eval)

lemma float_50: "float_of_str ''50'' = Inr (Fin 50)"
  by (simp add: float_eval)

lemma float_60: "float_of_str ''60'' = Inr (Fin 60)"
  by (simp add: float_eval)

lemmas clean_eval = clean_price_def remove_dollar_def py_strip_def strip_with_def is_space_def
  code_def Let_def

lemmas parts_eval = price_parts_def py_strip_def strip_with_def is_space_def code_def Let_def

lemma price_60_50: "parse_price_range (PStr ''60-50'') = Inr (Fin 60, Fin 50)"
  by (simp add: price_eval float_60 float_50)

lemma price_inf: "parse_price_range (PStr ''inf'') = Inr (PInf, PInf)"
  by (simp add: price_eval float_inf)

lemma fmul_20_inf: "fmul (Fin 20) PInf = PInf"
  by (simp add: fmul_def is_inf_def is_zero_def)

lemma fmul_10_inf: "fmul (Fin 10) PInf = PInf"
  by (simp add: fmul_def is_inf_def is_zero_def)

lemma inf_shares_offer: "compute_offer (PStr ''10-20'') (PStr ''inf'') = Inr (PInf, PInf)"
  by (simp add: compute_offer_def shares_float_def float_inf price_10_20 fmul_10_inf fmul_20_inf)

lemma inf_shares_status:
  "status_of (example_ipo(''numberOfShares'' \<mapsto> PStr ''inf'')) = Inr ''priced''"
  by (simp add: status_of_def example_ipo_def dict_get_def py_lower_def lower_char_def code_def)

lemma bad_total_status:
  "status_of (example_ipo(''totalSharesValue'' \<mapsto> PStr ''abc'')) = Inr ''priced''"
  by (simp add: status_of_def example_ipo_def dict_get_def py_lower_def lower_char_def code_def)

lemma price_dd: "parse_price_range (PStr ''--'') = Inl IndexError"
  by (simp add: price_eval)

lemma dd_status: "status_of (example_ipo(''price'' \<mapsto> PStr ''--'')) = Inr ''priced''"
  by (simp add: status_of_def example_ipo_def dict_get_def py_lower_def lower_char_def code_def)





lemma withdrawn_status:
  "status_of (example_ipo(''status'' \<mapsto> PStr ''withdrawn'')) = Inr ''withdrawn''"
  by (simp add: status_of_def example_ipo_def dict_get_def py_lower_def lower_char_def code_def)












lemma second_status: "status_of second_ipo = Inr ''priced''"
  by (simp add: status_of_def second_ipo_def example_ipo_def dict_get_def py_lower_def lower_char_def
      code_def)

lemma round_mag_30000000: "round_mag 30000000 = Some 30000000"
  by (simp add: round_eval)

lemma second_offer:
  "compute_offer (PStr ''10-20'') (PInt 30000000) = Inr (Fin 300000000, Fin 600000000)"
proof -
  have m: "fmul (Fin 10) (Fin 30000000) = Fin 300000000" "fmul (Fin 20) (Fin 30000000) = Fin 600000000"
    by (simp_all add: fmul_def is_inf_def round_eval)
  show ?thesis
    by (simp add: compute_offer_def shares_float_def round_mag_30000000 price_10_20 m)
qed

lemma second_eligible:
  "eligibility ''2026-01-05'' second_ipo = Inr (Admitted ''priced'' (Fin 600000000))"
  by (simp add: eligibility_def second_status)
     (simp add: second_ipo_def example_ipo_def field_eval second_offer THRESHOLD_USD_def)

lemma second_entry:
  "match_entry second_ipo ''priced'' (Fin 600000000) =
     Inr (''BBB (Beta Corp)''
          @ [CHR 0x0A] @ ''  Exchange: NASDAQ''
          @ [CHR 0x0A] @ ''  Status: priced''
          @ [CHR 0x0A] @ ''  Price: 10-20 | Shares: 30,000,000''
          @ [CHR 0x0A] @ ''  Est. Offer: $600,000,000''
          @ [CHR 0x0A] @ ''  Finnhub totalSharesValue: $450,000,000'')"
  by (simp add: match_entry_def second_ipo_def example_ipo_def field_eval round_mag_30000000
      total_text_def is_zero_def nl_def
      fmt_int_commas_def fmt_float_commas.simps round_half_even_def dec_digits.simps group3.simps
      digit_char_def)

lemma first_entry:
  "match_entry example_ipo ''priced'' (Fin 400000000) =
     Inr (''AAA (N/A)''
          @ [CHR 0x0A] @ ''  Exchange: NASDAQ''
          @ [CHR 0x0A] @ ''  Status: priced''
          @ [CHR 0x0A] @ ''  Price: 10-20 | Shares: 20,000,000''
          @ [CHR 0x0A] @ ''  Est. Offer: $400,000,000''
          @ [CHR 0x0A] @ ''  Finnhub totalSharesValue: N/A'')"
  by (simp add: example_entry nl_def)

lemma withdrawn_rejected: "eligibility ''2026-01-05'' withdrawn_ipo = Inr Rejected"
  by (simp add: eligibility_def withdrawn_ipo_def withdrawn_status)
     (simp add: example_ipo_def field_eval)

lemma example_run_loop:
  "run_loop ''2026-01-05'' [] [withdrawn_ipo, example_ipo, second_ipo] =
     Inr [''AAA (N/A)''
          @ [CHR 0x0A] @ ''  Exchange: NASDAQ''
          @ [CHR 0x0A] @ ''  Status: priced''
          @ [CHR 0x0A] @ ''  Price: 10-20 | Shares: 20,000,000''
          @ [CHR 0x0A] @ ''  Est. Offer: $400,000,000''
          @ [CHR 0x0A] @ ''  Finnhub totalSharesValue: N/A'',
          ''BBB (Beta Corp)''
          @ [CHR 0x0A] @ ''  Exchange: NASDAQ''
          @ [CHR 0x0A] @ ''  Status: priced''
          @ [CHR 0x0A] @ ''  Price: 10-20 | Shares: 30,000,000''
          @ [CHR 0x0A] @ ''  Est. Offer: $600,000,000''
          @ [CHR 0x0A] @ ''  Finnhub totalSharesValue: $450,000,000'']"
  by (simp add: loop_body_def withdrawn_rejected example_eligible first_entry second_eligible
      second_entry)

lemma price_dollar_dash: "parse_price_range (PStr ''$ -'') = Inl IndexError"
  by (simp add: price_eval)

lemma price_dash_dollar: "parse_price_range (PStr ''- $'') = Inl IndexError"
  by (simp add: price_eval)

lemma clean_dollar_dash: "clean_price (PStr ''$ -'') = '' -''"
  by (simp add: clean_eval)



section \<open>The claims\<close>




text \<open>
  C2 claims that \<^verbatim>\<open>parse_price_range\<close> never raises and that no exception leaves the
  loop. On the price \<^verbatim>\<open>"--"\<close> no piece is left between the hyphens,
  \<^verbatim>\<open>parts[-1]\<close> raises IndexError, the handler catches ValueError only, and the
  exception leaves the loop.
\<close>

theorem double_hyphen_raises:
  "parse_price_range (PStr ''--'') = Inl IndexError
   \<and> run_core ''2026-01-05'' [example_ipo(''price'' \<mapsto> PStr ''--'')] = Inl IndexError"
proof
  show "parse_price_range (PStr ''--'') = Inl IndexError" by (rule price_dd)
  have "compute_offer (PStr ''--'') (PStr ''20000000'') = Inl IndexError"
    by (simp add: compute_offer_def shares_float_def float_20000000 price_dd)
  then have "eligibility ''2026-01-05'' (example_ipo(''price'' \<mapsto> PStr ''--'')) = Inl IndexError"
    by (simp add: eligibility_def dd_status) (simp add: example_ipo_def field_eval)
  then show "run_core ''2026-01-05'' [example_ipo(''price'' \<mapsto> PStr ''--'')] = Inl IndexError"
    by (simp add: run_core_def loop_body_def)
qed

text \<open>
  C3. For a price text \<^verbatim>\<open><a>-<b>\<close> whose pieces \<open>a\<close> and \<open>b\<close> are numeric (texts
  that \<^verbatim>\<open>float\<close> accepts, with no hyphen inside, a piece being what stands between
  hyphens), the Price Normalizer yields the value of \<open>a\<close> as low and the value of \<open>b\<close>
  as high, also when further pieces follow; for \<^verbatim>\<open><a>-\<close> and \<^verbatim>\<open>-<a>\<close> it yields
  the value of \<open>a\<close> twice. In terms of the pieces the code computes: when at least two
  non-empty trimmed pieces remain, the first two are parsed as low and high and the others
  are ignored; when exactly one remains, its value is both bounds.
\<close>

theorem range_fragments:
  "(float_of_str a = Inr x \<and> CHR ''-'' \<notin> set a \<and> float_of_str b = Inr y \<and> CHR ''-'' \<notin> set b
      \<longrightarrow> parse_price_range (PStr (a @ ''-'' @ b)) = Inr (x, y)
          \<and> parse_price_range (PStr (a @ ''-'' @ b @ ''-'' @ rest)) = Inr (x, y)
          \<and> parse_price_range (PStr (a @ ''-'')) = Inr (x, x)
          \<and> parse_price_range (PStr (''-'' @ a)) = Inr (x, x))
   \<and> (CHR ''-'' \<in> set (clean_price price_raw)
        \<and> price_parts (clean_price price_raw) = p # q # more
        \<and> float_of_str p = Inr low \<and> float_of_str q = Inr high
      \<longrightarrow> parse_price_range price_raw = Inr (low, high))
   \<and> (CHR ''-'' \<in> set (clean_price price_raw)
        \<and> price_parts (clean_price price_raw) = [p]
        \<and> float_of_str p = Inr v
      \<longrightarrow> parse_price_range price_raw = Inr (v, v))"
proof (intro conjI impI)
  assume h: "float_of_str a = Inr x \<and> CHR ''-'' \<notin> set a \<and> float_of_str b = Inr y \<and> CHR ''-'' \<notin> set b"
  then have a: "float_of_str a = Inr x" "CHR ''-'' \<notin> set a"
    and b: "float_of_str b = Inr y" "CHR ''-'' \<notin> set b" by simp_all
  from two_sided[OF a b] show "parse_price_range (PStr (a @ ''-'' @ b)) = Inr (x, y)" by simp
  from two_sided_more[OF a b, of rest]
  show "parse_price_range (PStr (a @ ''-'' @ b @ ''-'' @ rest)) = Inr (x, y)" by simp
  from trailing_hyphen[OF a] show "parse_price_range (PStr (a @ ''-'')) = Inr (x, x)" by simp
  from leading_hyphen[OF a] show "parse_price_range (PStr (''-'' @ a)) = Inr (x, x)" by simp
next
  assume h: "CHR ''-'' \<in> set (clean_price price_raw)
        \<and> price_parts (clean_price price_raw) = p # q # more
        \<and> float_of_str p = Inr low \<and> float_of_str q = Inr high"
  then have t: "price_try (clean_price price_raw) = Inr (low, high)"
    by (simp add: price_try_range)
  from h have n: "price_raw \<noteq> PNone" by (auto simp: clean_eval)
  from h have "clean_price price_raw \<noteq> []" "clean_price price_raw \<noteq> ''-''"
    by (auto simp: price_parts_hyphen)
  with t n show "parse_price_range price_raw = Inr (low, high)" by (intro parse_from_try)
next
  assume h: "CHR ''-'' \<in> set (clean_price price_raw)
        \<and> price_parts (clean_price price_raw) = [p]
        \<and> float_of_str p = Inr v"
  then have t: "price_try (clean_price price_raw) = Inr (v, v)"
    by (simp add: price_try_single)
  from h have n: "price_raw \<noteq> PNone" by (auto simp: clean_eval)
  from h have "clean_price price_raw \<noteq> []" "clean_price price_raw \<noteq> ''-''"
    by (auto simp: price_parts_hyphen)
  with t n show "parse_price_range price_raw = Inr (v, v)" by (intro parse_from_try)
qed

theorem range_fragments_witness:
  "parse_price_range (PStr ''50-60'') = Inr (Fin 50, Fin 60)
   \<and> parse_price_range (PStr ''50-60-abc'') = Inr (Fin 50, Fin 60)
   \<and> parse_price_range (PStr ''50-'') = Inr (Fin 50, Fin 50)
   \<and> parse_price_range (PStr ''-50'') = Inr (Fin 50, Fin 50)
   \<and> parse_price_range (PStr ''$50-$60'') = Inr (Fin 50, Fin 60)
   \<and> parse_price_range (PStr ''$50 -'') = Inr (Fin 50, Fin 50)"
proof -
  have h: "float_of_str ''50'' = Inr (Fin 50) \<and> CHR ''-'' \<notin> set ''50''
           \<and> float_of_str ''60'' = Inr (Fin 60) \<and> CHR ''-'' \<notin> set ''60''"
    by (simp add: float_50 float_60)
  note t = range_fragments[of "''50''" "Fin 50" "''60''" "Fin 60" "''abc''",
      THEN conjunct1, THEN mp, OF h]
  from t have r1: "parse_price_range (PStr ''50-60'') = Inr (Fin 50, Fin 60)"
    and r2: "parse_price_range (PStr ''50-60-abc'') = Inr (Fin 50, Fin 60)"
    and r3: "parse_price_range (PStr ''50-'') = Inr (Fin 50, Fin 50)"
    and r4: "parse_price_range (PStr ''-50'') = Inr (Fin 50, Fin 50)" by simp_all
  have c5: "clean_price (PStr ''$50-$60'') = ''50-60''" by (simp add: clean_eval)
  have p5: "price_parts ''50-60'' = [''50'', ''60'']" by (simp add: parts_eval)
  note t5 = range_fragments[where price_raw = "PStr ''$50-$60''" and p = "''50''" and q = "''60''"
      and more = "[]" and low = "Fin 50" and high = "Fin 60",
      THEN conjunct2, THEN conjunct1, THEN mp]
  have r5: "parse_price_range (PStr ''$50-$60'') = Inr (Fin 50, Fin 60)"
    by (rule t5) (simp add: c5 p5 float_50 float_60)
  have c6: "clean_price (PStr ''$50 -'') = ''50 -''" by (simp add: clean_eval)
  have p6: "price_parts ''50 -'' = [''50'']" by (simp add: parts_eval)
  note t6 = range_fragments[where price_raw = "PStr ''$50 -''" and p = "''50''" and v = "Fin 50",
      THEN conjunct2, THEN conjunct2, THEN mp]
  have r6: "parse_price_range (PStr ''$50 -'') = Inr (Fin 50, Fin 50)"
    by (rule t6) (simp add: c6 p6 float_50)
  from r1 r2 r3 r4 r5 r6 show ?thesis by simp
qed

text \<open>
  C4 claims \<open>(0.0, 0.0)\<close> whenever the text, once the \<^verbatim>\<open>$\<close> and the surrounding
  whitespace are removed, is the lone dash. The code strips the whitespace first and
  removes the \<^verbatim>\<open>$\<close> afterwards, without stripping again: \<^verbatim>\<open>"$ -"\<close> is cleaned to
  \<^verbatim>\<open>" -"\<close>, which is not the dash, contains a hyphen and leaves no piece, so
  \<^verbatim>\<open>parts[-1]\<close> raises IndexError, which the handler does not catch. The same
  happens on \<^verbatim>\<open>"- $"\<close>.
\<close>

theorem dollar_dash_raises:
  "clean_price (PStr ''$ -'') = '' -''
   \<and> parse_price_range (PStr ''$ -'') = Inl IndexError
   \<and> parse_price_range (PStr ''- $'') = Inl IndexError"
  by (simp only: clean_dollar_dash price_dollar_dash price_dash_dollar simp_thms)

text \<open>
  C5 claims \<open>low \<le> high\<close> for every explicit two-sided range. The function keeps the
  order in which the two pieces are written and compares nothing: \<^verbatim>\<open>"60-50"\<close> yields
  \<open>(60.0, 50.0)\<close>.
\<close>

theorem range_order_counterexample:
  "parse_price_range (PStr ''60-50'') = Inr (Fin 60, Fin 50) \<and> \<not> fle (Fin 60) (Fin 50)"
  by (simp add: price_60_50)

text \<open>
  C5, as the code has it. A two-sided range yields the value of the first piece as
  \<^verbatim>\<open>low\<close> and the value of the second as \<^verbatim>\<open>high\<close>, in the order written. When
  the cleaned text has no hyphen or fewer than two pieces, the two bounds returned are the
  same value.
\<close>

theorem range_keeps_input_order:
  "(CHR ''-'' \<in> set (clean_price price_raw) \<and> price_parts (clean_price price_raw) = p # q # rest
      \<and> float_of_str p = Inr x \<and> float_of_str q = Inr y
      \<longrightarrow> parse_price_range price_raw = Inr (x, y))
   \<and> (parse_price_range price_raw = Inr (low, high)
        \<and> (CHR ''-'' \<notin> set (clean_price price_raw) \<or> length (price_parts (clean_price price_raw)) < 2)
      \<longrightarrow> low = high)"
proof (intro conjI impI)
  assume a: "CHR ''-'' \<in> set (clean_price price_raw) \<and> price_parts (clean_price price_raw) = p # q # rest
      \<and> float_of_str p = Inr x \<and> float_of_str q = Inr y"
  then have t: "price_try (clean_price price_raw) = Inr (x, y)"
    by (simp add: price_try_range)
  from a have "clean_price price_raw \<noteq> []" by auto
  moreover from a have "clean_price price_raw \<noteq> ''-''" by (auto simp: price_parts_hyphen)
  moreover from a have "price_raw \<noteq> PNone"
    by (auto simp: clean_eval)
  ultimately show "parse_price_range price_raw = Inr (x, y)"
    using t by (simp add: parse_price_range_unfold)
next
  assume a: "parse_price_range price_raw = Inr (low, high)
        \<and> (CHR ''-'' \<notin> set (clean_price price_raw) \<or> length (price_parts (clean_price price_raw)) < 2)"
  then show "low = high"
    using price_try_same[of "clean_price price_raw" low high]
    by (auto simp: parse_price_range_unfold split: if_splits)
qed

theorem range_keeps_input_order_witness:
  "parse_price_range (PStr ''60-50'') = Inr (Fin 60, Fin 50)
   \<and> parse_price_range (PStr ''50-'') = Inr (Fin 50, Fin 50)"
proof -
  have c1: "clean_price (PStr ''60-50'') = ''60-50''" by (simp add: clean_eval)
  have p1: "price_parts ''60-50'' = [''60'', ''50'']" by (simp add: parts_eval)
  from range_keeps_input_order[of "PStr ''60-50''" "''60''" "''50''" "[]" "Fin 60" "Fin 50"]
    c1 p1 float_60 float_50
  have r1: "parse_price_range (PStr ''60-50'') = Inr (Fin 60, Fin 50)" by simp
  have c2: "clean_price (PStr ''50-'') = ''50-''" by (simp add: clean_eval)
  have p2: "price_parts ''50-'' = [''50'']" by (simp add: parts_eval)
  then have t2: "price_try ''50-'' = Inr (Fin 50, Fin 50)"
    by (simp add: price_try_single float_50)
  have e2: "parse_price_range (PStr ''50-'') = Inr (Fin 50, Fin 50)"
    by (simp add: parse_price_range_unfold c2 t2)
  from r1 e2 show ?thesis by simp
qed

text \<open>
  C6 claims the offer is \<open>(0.0, 0.0)\<close> for absent shares whatever the price. The price
  \<^verbatim>\<open>"inf"\<close> parses to infinity, and infinity times \<open>0.0\<close> is NaN.
\<close>

theorem zero_shares_counterexample:
  "compute_offer (PStr ''inf'') PNone = Inr (NaN, NaN)"
  by (simp add: compute_offer_def shares_float_def price_inf fmul_def is_inf_def is_zero_def)

text \<open>
  C6, as the code has it. When the share conversion and the price parse both return,
  \<^verbatim>\<open>compute_offer\<close> returns the two products. The share count is \<open>0.0\<close> when the
  field is null or \<^verbatim>\<open>float\<close> raises ValueError or TypeError on it; then the offer is
  \<open>(0.0, 0.0)\<close> for every price whose parsed bounds are finite.
\<close>

theorem compute_offer_product:
  "(shares_float shares = Inr shares_f \<and> parse_price_range price_raw = Inr (low, high)
      \<longrightarrow> compute_offer price_raw shares = Inr (fmul low shares_f, fmul high shares_f))
   \<and> (shares = PNone \<or> py_float shares = Inl ValueError \<or> py_float shares = Inl TypeError
      \<longrightarrow> shares_float shares = Inr (Fin 0))
   \<and> ((shares = PNone \<or> py_float shares = Inl ValueError \<or> py_float shares = Inl TypeError)
        \<and> parse_price_range price_raw = Inr (Fin a, Fin b)
      \<longrightarrow> compute_offer price_raw shares = Inr (Fin 0, Fin 0))"
proof (intro conjI impI)
  assume "shares_float shares = Inr shares_f \<and> parse_price_range price_raw = Inr (low, high)"
  then show "compute_offer price_raw shares = Inr (fmul low shares_f, fmul high shares_f)"
    by (simp add: compute_offer_def)
next
  assume "shares = PNone \<or> py_float shares = Inl ValueError \<or> py_float shares = Inl TypeError"
  then show "shares_float shares = Inr (Fin 0)" by (rule shares_float_default)
next
  assume a: "(shares = PNone \<or> py_float shares = Inl ValueError \<or> py_float shares = Inl TypeError)
        \<and> parse_price_range price_raw = Inr (Fin a, Fin b)"
  then have s: "shares_float shares = Inr (Fin 0)" by (simp add: shares_float_default)
  from a have "\<not> fsign (Fin a) \<and> \<not> fsign (Fin b)" by (auto dest: parse_price_range_sign)
  then have "fmul (Fin a) (Fin 0) = Fin 0" and "fmul (Fin b) (Fin 0) = Fin 0"
    by (simp_all add: fmul_zero)
  with a s show "compute_offer price_raw shares = Inr (Fin 0, Fin 0)"
    by (simp add: compute_offer_def)
qed

theorem compute_offer_product_witness:
  "compute_offer (PStr ''10-20'') (PStr ''20000000'') = Inr (Fin 200000000, Fin 400000000)
   \<and> shares_float (PStr ''abc'') = Inr (Fin 0)
   \<and> compute_offer (PStr ''10-20'') (PStr ''abc'') = Inr (Fin 0, Fin 0)"
proof -
  have s: "shares_float (PStr ''20000000'') = Inr (Fin 20000000)"
    by (simp add: shares_float_def float_20000000)
  have f: "py_float (PStr ''abc'') = Inl ValueError" by (simp add: float_abc)
  from compute_offer_product[of "PStr ''20000000''" "Fin 20000000" "PStr ''10-20''" "Fin 10" "Fin 20"]
    s price_10_20
  have "compute_offer (PStr ''10-20'') (PStr ''20000000'')
          = Inr (fmul (Fin 10) (Fin 20000000), fmul (Fin 20) (Fin 20000000))" by blast
  then have r1: "compute_offer (PStr ''10-20'') (PStr ''20000000'') = Inr (Fin 200000000, Fin 400000000)"
    by (simp add: fmul_10 fmul_20)
  from compute_offer_product[of "PStr ''abc''" _ "PStr ''10-20''" _ _ 10 20] f price_10_20
  have r2: "shares_float (PStr ''abc'') = Inr (Fin 0)"
    and r3: "compute_offer (PStr ''10-20'') (PStr ''abc'') = Inr (Fin 0, Fin 0)" by blast+
  from r1 r2 r3 show ?thesis by blast
qed

text \<open>
  C7. Report Formatter. On an empty list of matches the subject is
  \<^verbatim>\<open>IPO Report [<date>]: No tickers > $200M\<close> and the body is the fixed success
  sentence. On a non-empty list of \<open>N\<close> matches the subject is
  \<^verbatim>\<open>IPO Report [<date>]: <N> tickers > $200M\<close> and the body is the header line
  \<^verbatim>\<open>Same-day US IPOs exceeding $200M:\<close>, an empty line, the first block, and every
  further block preceded by a line of 39 dashes: nothing follows the last block. The
  blocks are those of the admitted records, one each, in the order of the fetched list.
  When the run returns, the block of every admitted record was built, and a block is the
  six lines of the record: symbol and name, exchange, status, price and share count,
  estimated offer, total.
\<close>

theorem report_format:
  "format_report today [] =
     (''IPO Report ['' @ today @ '']: No tickers > $200M'',
      ''Automation ran successfully. No same-day US IPOs exceeded $200M (price ''
      @ [CHR 0xD7] @ '' shares).'')
   \<and> (ms \<noteq> [] \<longrightarrow>
        format_report today ms =
          (''IPO Report ['' @ today @ '']: '' @ str_int (int (length ms)) @ '' tickers > $200M'',
           ''Same-day US IPOs exceeding $200M:'' @ [CHR 0x0A, CHR 0x0A] @ hd ms
           @ concat (map (\<lambda>m. [CHR 0x0A] @ ''---------------------------------------''
                               @ [CHR 0x0A] @ m) (tl ms))))
   \<and> (run_core today ipos = Inr r \<longrightarrow>
        r = format_report today (map (block_of today) (filter (admitted today) ipos)))
   \<and> (run_core today ipos = Inr r \<and> ipo \<in> set ipos
        \<and> eligibility today ipo = Inr (Admitted status offer)
      \<longrightarrow> (\<exists>m. match_entry ipo status offer = Inr m))
   \<and> (eligibility today ipo = Inr (Admitted status offer) \<and> match_entry ipo status offer = Inr m
      \<longrightarrow> block_of today ipo = m
          \<and> (\<exists>shares_f shares_int total.
                py_float (get_shares ipo) = Inr shares_f \<and> int_of_float shares_f = Inr shares_int
                \<and> total_text (get_total ipo) = Inr total
                \<and> m = py_str (get_symbol ipo) @ '' ('' @ py_str (get_name ipo) @ '')'' @ [CHR 0x0A]
                      @ ''  Exchange: '' @ py_str (get_exchange ipo) @ [CHR 0x0A]
                      @ ''  Status: '' @ status @ [CHR 0x0A]
                      @ ''  Price: '' @ py_str (get_price ipo)
                      @ '' | Shares: '' @ fmt_int_commas shares_int @ [CHR 0x0A]
                      @ ''  Est. Offer: $'' @ fmt_float_commas offer @ [CHR 0x0A]
                      @ ''  Finnhub totalSharesValue: '' @ total))"
proof (intro conjI impI)
  show "format_report today [] =
     (''IPO Report ['' @ today @ '']: No tickers > $200M'',
      ''Automation ran successfully. No same-day US IPOs exceeded $200M (price ''
      @ [CHR 0xD7] @ '' shares).'')"
    by (simp add: format_report_def)
next
  assume "ms \<noteq> []"
  then obtain m ms' where "ms = m # ms'" by (cases ms) auto
  then show "format_report today ms =
          (''IPO Report ['' @ today @ '']: '' @ str_int (int (length ms)) @ '' tickers > $200M'',
           ''Same-day US IPOs exceeding $200M:'' @ [CHR 0x0A, CHR 0x0A] @ hd ms
           @ concat (map (\<lambda>m. [CHR 0x0A] @ ''---------------------------------------''
                               @ [CHR 0x0A] @ m) (tl ms)))"
    by (simp add: format_report_def py_join_Cons header_def separator_def nl_def)
next
  assume "run_core today ipos = Inr r"
  then obtain ms where l: "run_loop today [] ipos = Inr ms" and r: "r = format_report today ms"
    by (auto simp: run_core_def split: sum.splits)
  from run_loop_blocks[OF l] r
  show "r = format_report today (map (block_of today) (filter (admitted today) ipos))" by simp
next
  assume a: "run_core today ipos = Inr r \<and> ipo \<in> set ipos
        \<and> eligibility today ipo = Inr (Admitted status offer)"
  then obtain ms where l: "run_loop today [] ipos = Inr ms"
    by (auto simp: run_core_def split: sum.splits)
  from a run_loop_entries[OF l] show "\<exists>m. match_entry ipo status offer = Inr m" by blast
next
  assume a: "eligibility today ipo = Inr (Admitted status offer) \<and> match_entry ipo status offer = Inr m"
  then show "block_of today ipo = m" by (simp add: block_of_entry)
  from a match_entry_layout[of ipo status offer m]
  show "\<exists>shares_f shares_int total.
                py_float (get_shares ipo) = Inr shares_f \<and> int_of_float shares_f = Inr shares_int
                \<and> total_text (get_total ipo) = Inr total
                \<and> m = py_str (get_symbol ipo) @ '' ('' @ py_str (get_name ipo) @ '')'' @ [CHR 0x0A]
                      @ ''  Exchange: '' @ py_str (get_exchange ipo) @ [CHR 0x0A]
                      @ ''  Status: '' @ status @ [CHR 0x0A]
                      @ ''  Price: '' @ py_str (get_price ipo)
                      @ '' | Shares: '' @ fmt_int_commas shares_int @ [CHR 0x0A]
                      @ ''  Est. Offer: $'' @ fmt_float_commas offer @ [CHR 0x0A]
                      @ ''  Finnhub totalSharesValue: '' @ total"
    by simp
qed

theorem report_format_witness:
  "run_core ''2026-01-05'' [withdrawn_ipo, example_ipo, second_ipo] =
     Inr (''IPO Report [2026-01-05]: 2 tickers > $200M'',
          ''Same-day US IPOs exceeding $200M:''
          @ [CHR 0x0A] @ []
          @ [CHR 0x0A] @ ''AAA (N/A)''
          @ [CHR 0x0A] @ ''  Exchange: NASDAQ''
          @ [CHR 0x0A] @ ''  Status: priced''
          @ [CHR 0x0A] @ ''  Price: 10-20 | Shares: 20,000,000''
          @ [CHR 0x0A] @ ''  Est. Offer: $400,000,000''
          @ [CHR 0x0A] @ ''  Finnhub totalSharesValue: N/A''
          @ [CHR 0x0A] @ ''---------------------------------------''
          @ [CHR 0x0A] @ ''BBB (Beta Corp)''
          @ [CHR 0x0A] @ ''  Exchange: NASDAQ''
          @ [CHR 0x0A] @ ''  Status: priced''
          @ [CHR 0x0A] @ ''  Price: 10-20 | Shares: 30,000,000''
          @ [CHR 0x0A] @ ''  Est. Offer: $600,000,000''
          @ [CHR 0x0A] @ ''  Finnhub totalSharesValue: $450,000,000'')
   \<and> run_core ''2026-01-05'' [withdrawn_ipo] =
       Inr (''IPO Report [2026-01-05]: No tickers > $200M'',
            ''Automation ran successfully. No same-day US IPOs exceeded $200M (price ''
            @ [CHR 0xD7] @ '' shares).'')
   \<and> map (block_of ''2026-01-05'')
         (filter (admitted ''2026-01-05'') [withdrawn_ipo, example_ipo, second_ipo]) =
       [''AAA (N/A)''
        @ [CHR 0x0A] @ ''  Exchange: NASDAQ''
        @ [CHR 0x0A] @ ''  Status: priced''
        @ [CHR 0x0A] @ ''  Price: 10-20 | Shares: 20,000,000''
        @ [CHR 0x0A] @ ''  Est. Offer: $400,000,000''
        @ [CHR 0x0A] @ ''  Finnhub totalSharesValue: N/A'',
        ''BBB (Beta Corp)''
        @ [CHR 0x0A] @ ''  Exchange: NASDAQ''
        @ [CHR 0x0A] @ ''  Status: priced''
        @ [CHR 0x0A] @ ''  Price: 10-20 | Shares: 30,000,000''
        @ [CHR 0x0A] @ ''  Est. Offer: $600,000,000''
        @ [CHR 0x0A] @ ''  Finnhub totalSharesValue: $450,000,000'']
   \<and> (\<exists>m. match_entry second_ipo ''priced'' (Fin 600000000) = Inr m)
   \<and> run_core ''2026-01-05'' [withdrawn_ipo, example_ipo, second_ipo] =
       Inr (format_report ''2026-01-05''
              (map (block_of ''2026-01-05'')
                 (filter (admitted ''2026-01-05'') [withdrawn_ipo, example_ipo, second_ipo])))"
proof -
  let ?d = "''2026-01-05''"
  let ?l = "[withdrawn_ipo, example_ipo, second_ipo]"
  let ?m1 = "''AAA (N/A)''
      @ [CHR 0x0A] @ ''  Exchange: NASDAQ''
      @ [CHR 0x0A] @ ''  Status: priced''
      @ [CHR 0x0A] @ ''  Price: 10-20 | Shares: 20,000,000''
      @ [CHR 0x0A] @ ''  Est. Offer: $400,000,000''
      @ [CHR 0x0A] @ ''  Finnhub totalSharesValue: N/A''"
  let ?m2 = "''BBB (Beta Corp)''
      @ [CHR 0x0A] @ ''  Exchange: NASDAQ''
      @ [CHR 0x0A] @ ''  Status: priced''
      @ [CHR 0x0A] @ ''  Price: 10-20 | Shares: 30,000,000''
      @ [CHR 0x0A] @ ''  Est. Offer: $600,000,000''
      @ [CHR 0x0A] @ ''  Finnhub totalSharesValue: $450,000,000''"
  let ?r = "format_report ?d [?m1, ?m2]"
  have run: "run_core ?d ?l = Inr ?r"
    by (simp only: run_core_def example_run_loop sum.case)
  have two: "[?m1, ?m2] \<noteq> []" by simp
  note shape = report_format[where today = ?d and ms = "[?m1, ?m2]",
      THEN conjunct2, THEN conjunct1, THEN mp, OF two]
  have r1: "run_core ?d ?l =
     Inr (''IPO Report [2026-01-05]: 2 tickers > $200M'',
          ''Same-day US IPOs exceeding $200M:''
          @ [CHR 0x0A] @ []
          @ [CHR 0x0A] @ ''AAA (N/A)''
          @ [CHR 0x0A] @ ''  Exchange: NASDAQ''
          @ [CHR 0x0A] @ ''  Status: priced''
          @ [CHR 0x0A] @ ''  Price: 10-20 | Shares: 20,000,000''
          @ [CHR 0x0A] @ ''  Est. Offer: $400,000,000''
          @ [CHR 0x0A] @ ''  Finnhub totalSharesValue: N/A''
          @ [CHR 0x0A] @ ''---------------------------------------''
          @ [CHR 0x0A] @ ''BBB (Beta Corp)''
          @ [CHR 0x0A] @ ''  Exchange: NASDAQ''
          @ [CHR 0x0A] @ ''  Status: priced''
          @ [CHR 0x0A] @ ''  Price: 10-20 | Shares: 30,000,000''
          @ [CHR 0x0A] @ ''  Est. Offer: $600,000,000''
          @ [CHR 0x0A] @ ''  Finnhub totalSharesValue: $450,000,000'')"
    by (simp only: run shape) (simp add: str_int_2)
  have "run_loop ?d [] [withdrawn_ipo] = Inr []"
    by (simp add: loop_body_def withdrawn_rejected)
  then have "run_core ?d [withdrawn_ipo] = Inr (format_report ?d [])"
    by (simp add: run_core_def)
  with report_format[where today = ?d, THEN conjunct1]
  have r2: "run_core ?d [withdrawn_ipo] =
       Inr (''IPO Report [2026-01-05]: No tickers > $200M'',
            ''Automation ran successfully. No same-day US IPOs exceeded $200M (price ''
            @ [CHR 0xD7] @ '' shares).'')"
    by simp
  note b1 = report_format[where today = ?d and ipo = example_ipo and status = "''priced''"
      and offer = "Fin 400000000" and m = ?m1,
      THEN conjunct2, THEN conjunct2, THEN conjunct2, THEN conjunct2, THEN mp, THEN conjunct1]
  have k1: "block_of ?d example_ipo = ?m1"
    by (rule b1) (simp only: example_eligible first_entry simp_thms)
  note b2 = report_format[where today = ?d and ipo = second_ipo and status = "''priced''"
      and offer = "Fin 600000000" and m = ?m2,
      THEN conjunct2, THEN conjunct2, THEN conjunct2, THEN conjunct2, THEN mp, THEN conjunct1]
  have k2: "block_of ?d second_ipo = ?m2"
    by (rule b2) (simp only: second_eligible second_entry simp_thms)
  have r3: "map (block_of ?d) (filter (admitted ?d) ?l) = [?m1, ?m2]"
    by (simp add: admitted_def withdrawn_rejected example_eligible second_eligible k1 k2)
  note e = report_format[where today = ?d and ipos = ?l and r = ?r and ipo = second_ipo
      and status = "''priced''" and offer = "Fin 600000000",
      THEN conjunct2, THEN conjunct2, THEN conjunct2, THEN conjunct1, THEN mp]
  have r4: "\<exists>m. match_entry second_ipo ''priced'' (Fin 600000000) = Inr m"
    by (rule e) (simp add: run second_eligible)
  note c = report_format[where today = ?d and ipos = ?l and r = ?r,
      THEN conjunct2, THEN conjunct2, THEN conjunct1, THEN mp, OF run]
  have r5: "run_core ?d ?l = Inr (format_report ?d (map (block_of ?d) (filter (admitted ?d) ?l)))"
    by (simp only: c[symmetric] run)
  from r1 r2 r3 r4 r5 show ?thesis by (intro conjI)
qed

text \<open>
  C9 claims that building the text block of an admitted record cannot raise. A share
  count of \<^verbatim>\<open>"inf"\<close> passes the threshold with an infinite offer, and
  \<^verbatim>\<open>int(float("inf"))\<close> raises OverflowError; a total of \<^verbatim>\<open>"abc"\<close> makes
  \<^verbatim>\<open>float(finnhub_total)\<close> raise ValueError.
\<close>

theorem infinite_shares_counterexample:
  "eligibility ''2026-01-05'' (example_ipo(''numberOfShares'' \<mapsto> PStr ''inf''))
     = Inr (Admitted ''priced'' PInf)
   \<and> match_entry (example_ipo(''numberOfShares'' \<mapsto> PStr ''inf'')) ''priced'' PInf
     = Inl OverflowError
   \<and> eligibility ''2026-01-05'' (example_ipo(''totalSharesValue'' \<mapsto> PStr ''abc''))
     = Inr (Admitted ''priced'' (Fin 400000000))
   \<and> match_entry (example_ipo(''totalSharesValue'' \<mapsto> PStr ''abc'')) ''priced'' (Fin 400000000)
     = Inl ValueError"
proof (intro conjI)
  show "eligibility ''2026-01-05'' (example_ipo(''totalSharesValue'' \<mapsto> PStr ''abc''))
     = Inr (Admitted ''priced'' (Fin 400000000))"
    by (simp add: eligibility_def bad_total_status)
       (simp add: example_ipo_def field_eval example_offer THRESHOLD_USD_def)
  show "match_entry (example_ipo(''totalSharesValue'' \<mapsto> PStr ''abc'')) ''priced'' (Fin 400000000)
     = Inl ValueError"
    by (simp add: match_entry_def example_ipo_def field_eval float_20000000 total_text_def
        float_abc round_half_even_def)
  show "eligibility ''2026-01-05'' (example_ipo(''numberOfShares'' \<mapsto> PStr ''inf''))
     = Inr (Admitted ''priced'' PInf)"
    by (simp add: eligibility_def inf_shares_status)
       (simp add: example_ipo_def field_eval inf_shares_offer THRESHOLD_USD_def)
  show "match_entry (example_ipo(''numberOfShares'' \<mapsto> PStr ''inf'')) ''priced'' PInf
     = Inl OverflowError"
    by (simp add: match_entry_def example_ipo_def field_eval float_inf)
qed

text \<open>
  C9, as the code has it. For a record that passes the threshold test, \<^verbatim>\<open>float\<close>
  converted the shares field without raising, to a float that is neither zero nor NaN.
  When that float is finite, \<^verbatim>\<open>int(float(shares))\<close> returns, and the text block is
  built whenever the source's total is absent, false or converts to a float.
\<close>

theorem admitted_entry_total:
  "eligibility today ipo = Inr (Admitted status offer) \<longrightarrow>
     (\<exists>shares_f. py_float (get_shares ipo) = Inr shares_f
        \<and> \<not> is_zero shares_f \<and> shares_f \<noteq> NaN
        \<and> (\<not> is_inf shares_f \<longrightarrow> (\<exists>n. int_of_float shares_f = Inr n))
        \<and> (\<not> is_inf shares_f \<and> (\<exists>t. total_text (get_total ipo) = Inr t)
             \<longrightarrow> (\<exists>m. match_entry ipo status offer = Inr m)))"
proof
  assume a: "eligibility today ipo = Inr (Admitted status offer)"
  from admitted_shares[OF a] obtain shares_f where
    p: "py_float (get_shares ipo) = Inr shares_f" and z: "\<not> is_zero shares_f" and n: "shares_f \<noteq> NaN"
    by blast
  have i: "\<not> is_inf shares_f \<longrightarrow> (\<exists>n. int_of_float shares_f = Inr n)"
    using n by (auto dest: int_of_float_finite)
  have "\<not> is_inf shares_f \<and> (\<exists>t. total_text (get_total ipo) = Inr t)
             \<longrightarrow> (\<exists>m. match_entry ipo status offer = Inr m)"
  proof
    assume b: "\<not> is_inf shares_f \<and> (\<exists>t. total_text (get_total ipo) = Inr t)"
    with i obtain k t where "int_of_float shares_f = Inr k" "total_text (get_total ipo) = Inr t"
      by blast
    with p show "\<exists>m. match_entry ipo status offer = Inr m"
      by (simp add: match_entry_def)
  qed
  with p z n i show "\<exists>shares_f. py_float (get_shares ipo) = Inr shares_f
        \<and> \<not> is_zero shares_f \<and> shares_f \<noteq> NaN
        \<and> (\<not> is_inf shares_f \<longrightarrow> (\<exists>n. int_of_float shares_f = Inr n))
        \<and> (\<not> is_inf shares_f \<and> (\<exists>t. total_text (get_total ipo) = Inr t)
             \<longrightarrow> (\<exists>m. match_entry ipo status offer = Inr m))"
    by blast
qed

theorem admitted_entry_total_witness:
  "eligibility ''2026-01-05'' example_ipo = Inr (Admitted ''priced'' (Fin 400000000))
   \<and> (\<exists>m. match_entry example_ipo ''priced'' (Fin 400000000) = Inr m)"
proof -
  have s: "py_float (get_shares example_ipo) = Inr (Fin 20000000)"
    by (simp add: example_ipo_def field_eval float_20000000)
  have t: "total_text (get_total example_ipo) = Inr ''N/A''"
    by (simp add: example_ipo_def field_eval total_text_def)
  from admitted_entry_total[of "''2026-01-05''" example_ipo "''priced''" "Fin 400000000"]
    example_eligible
  obtain shares_f where p: "py_float (get_shares example_ipo) = Inr shares_f"
    and m: "\<not> is_inf shares_f \<and> (\<exists>t. total_text (get_total example_ipo) = Inr t)
             \<longrightarrow> (\<exists>m. match_entry example_ipo ''priced'' (Fin 400000000) = Inr m)"
    by blast
  from p s have "shares_f = Fin 20000000" by simp
  then have "\<not> is_inf shares_f" by (simp add: is_inf_def)
  with m t have "\<exists>m. match_entry example_ipo ''priced'' (Fin 400000000) = Inr m" by blast
  with example_eligible show ?thesis by blast
qed

text \<open>
  C10. For every input, neither bound returned by \<^verbatim>\<open>parse_price_range\<close> is strictly
  negative: every hyphen of the cleaned text separates pieces, so no piece handed to
  \<^verbatim>\<open>float\<close> carries a minus sign, and the input \<^verbatim>\<open>"-5"\<close> yields \<open>(5.0, 5.0)\<close>.
\<close>

theorem price_never_negative:
  "(parse_price_range price_raw = Inr (low, high)
      \<longrightarrow> \<not> flt low (Fin 0) \<and> \<not> flt high (Fin 0))
   \<and> parse_price_range (PStr ''-5'') = Inr (Fin 5, Fin 5)"
  using parse_price_range_sign[of price_raw low high] ex_minus5
  by (auto dest: not_fsign_not_negative)

theorem price_never_negative_witness:
  "parse_price_range (PInt (- 7)) = Inr (Fin 7, Fin 7)
   \<and> \<not> flt (Fin 7) (Fin 0)"
proof -
  have e: "parse_price_range (PInt (- 7)) = Inr (Fin 7, Fin 7)"
    by (simp add: price_eval str_int_m7 float_7)
  from price_never_negative[of "PInt (- 7)" "Fin 7" "Fin 7"] e
  have "\<not> flt (Fin 7) (Fin 0)" by blast
  with e show ?thesis by blast
qed

end
